theory Spec2Isabelle
  imports Main "HOL-Library.Sublist" "HOL-Library.Word"
begin

section \<open>JavaScript values, objects and errors\<close>

text \<open>
  The values a filter mapping or a record can hold. \<open>JNum w\<close> is the number whose
  value is the integer \<open>sint w\<close>: the integers from \<open>-2^53\<close> to \<open>2^53 - 1\<close>, each of
  which is a number of JavaScript and is printed as its plain decimal digits by the
  string conversion. \<open>JOther s\<close> is any other value (a fraction, a number of larger
  magnitude, \<open>NaN\<close>, an infinity, an array, an object) whose conversion to a string
  gives \<open>s\<close>: the operations of the storage class do nothing with such a value but
  convert it or hand it to the engine.
\<close>

datatype jsval = JUndefined | JNull | JBool bool | JNum "54 word" | JStr string | JOther string

text \<open>
  A plain object: its own enumerable properties, listed in the order of
  \<^verbatim>\<open>Object.keys\<close>. The keys of an object are distinct.
\<close>

type_synonym jsobj = "(string \<times> jsval) list"

definition Object_keys :: "jsobj \<Rightarrow> string list" where
  "Object_keys obj = map fst obj"

definition prop_get :: "jsobj \<Rightarrow> string \<Rightarrow> jsval" where
  \<comment> \<open>\<^verbatim>\<open>obj[key]\<close>: a missing property reads as \<^verbatim>\<open>undefined\<close>.\<close>
  "prop_get obj key = (case map_of obj key of Some v \<Rightarrow> v | None \<Rightarrow> JUndefined)"

definition digit :: "nat \<Rightarrow> char" where
  "digit d = ''0123456789'' ! (d mod 10)"

function string_of_nat :: "nat \<Rightarrow> string" where
  "string_of_nat n =
     (if n < 10 then [digit n] else string_of_nat (n div 10) @ [digit (n mod 10)])"
  by pat_completeness auto
termination
  by (relation "measure (\<lambda>n. n)") auto

declare string_of_nat.simps [simp del]

fun to_string :: "jsval \<Rightarrow> string" where
  \<comment> \<open>The conversion a template literal \<^verbatim>\<open>`${v}`\<close> applies.\<close>
  "to_string JUndefined = ''undefined''"
| "to_string JNull = ''null''"
| "to_string (JBool b) = (if b then ''true'' else ''false'')"
| "to_string (JNum w) =
     (if sint w < 0 then ''-'' @ string_of_nat (nat (- sint w))
      else string_of_nat (nat (sint w)))"
| "to_string (JStr s) = s"
| "to_string (JOther s) = s"

fun join :: "string list \<Rightarrow> string \<Rightarrow> string" where
  \<comment> \<open>\<^verbatim>\<open>Array.prototype.join\<close> on an array of strings.\<close>
  "join [] sep = ''''"
| "join [x] sep = x"
| "join (x # y # ys) sep = x @ sep @ join (y # ys) sep"

fun indexOf_from :: "'a list \<Rightarrow> 'a \<Rightarrow> int \<Rightarrow> int" where
  "indexOf_from [] x i = - 1"
| "indexOf_from (y # ys) x i = (if y = x then i else indexOf_from ys x (i + 1))"

definition indexOf :: "'a list \<Rightarrow> 'a \<Rightarrow> int" where
  \<comment> \<open>\<^verbatim>\<open>Array.prototype.indexOf\<close>: the first index of the element, or \<open>-1\<close>.\<close>
  "indexOf xs x = indexOf_from xs x 0"

text \<open>
  A thrown value is an \<^verbatim>\<open>Error\<close> object: its \<^verbatim>\<open>name\<close> (the kind of error, such as
  \<^verbatim>\<open>Error\<close> or \<^verbatim>\<open>TypeError\<close>) and its \<^verbatim>\<open>message\<close>.
\<close>

datatype js_error = JsError (err_name: string) (err_message: string)

definition error_toString :: "js_error \<Rightarrow> string" where
  \<comment> \<open>\<^verbatim>\<open>Error.prototype.toString\<close>.\<close>
  "error_toString e =
     (if err_name e = '''' then err_message e
      else if err_message e = '''' then err_name e
      else err_name e @ '': '' @ err_message e)"

definition new_Error :: "string \<Rightarrow> js_error" where
  \<comment> \<open>\<^verbatim>\<open>new Error(message)\<close> with a string.\<close>
  "new_Error msg = JsError ''Error'' msg"

definition new_Error_of :: "js_error \<Rightarrow> js_error" where
  \<comment> \<open>\<^verbatim>\<open>new Error(error)\<close> with an error object: the argument is converted to a string.\<close>
  "new_Error_of error = new_Error (error_toString error)"

section \<open>The engine\<close>

text \<open>
  The embedded database is an external collaborator. It is a parameter of the model: a
  record of the operations the storage class calls on its \<^verbatim>\<open>Realm\<close> instance, over a
  database state \<open>'db\<close> and handles \<open>'h\<close> (a record, or a live collection of records).
  Every operation may throw. The record also holds the \<^verbatim>\<open>TypeError\<close> the JavaScript
  runtime throws when a property of a falsy value is called; its wording differs from
  one runtime to the next.
\<close>

record schema =
  name :: string
  primaryKey :: "string option"
  properties :: jsobj

datatype migration = DefaultMigration | Migration string

record realm_config =
  cfg_schema :: "schema list"
  cfg_schemaVersion :: int
  cfg_migration :: migration

text \<open>What a lookup hands back: a collection, or (defensively) some falsy value.\<close>

datatype 'h lookup = Falsy | Results 'h

record ('db, 'h) engine =
  eng_open :: "realm_config \<Rightarrow> js_error + 'db"
  eng_objects :: "'db \<Rightarrow> string \<Rightarrow> js_error + 'h lookup"
  eng_filtered :: "'db \<Rightarrow> 'h \<Rightarrow> string \<Rightarrow> js_error + 'h lookup"
  eng_create :: "'db \<Rightarrow> string \<Rightarrow> jsobj \<Rightarrow> bool \<Rightarrow> js_error + ('h \<times> 'db)"
  eng_delete :: "'db \<Rightarrow> 'h \<Rightarrow> js_error + 'db"
  eng_type_error :: js_error

text \<open>
  The open instance: the database state, and the sequence of calls made on the
  instance so far.
\<close>

datatype 'h event =
    Objects string
  | Filtered 'h string
  | BeginTransaction
  | CommitTransaction
  | CancelTransaction
  | Create string jsobj bool
  | Delete 'h

record ('db, 'h) realm_instance =
  db :: 'db
  trace :: "'h event list"

definition realm_objects ::
  "('db, 'h) engine \<Rightarrow> string \<Rightarrow> ('db, 'h) realm_instance \<Rightarrow>
     (js_error + 'h lookup) \<times> ('db, 'h) realm_instance" where
  "realm_objects eng key r =
     (eng_objects eng (db r) key, r\<lparr>trace := trace r @ [Objects key]\<rparr>)"

definition realm_filtered ::
  "('db, 'h) engine \<Rightarrow> 'h \<Rightarrow> string \<Rightarrow> ('db, 'h) realm_instance \<Rightarrow>
     (js_error + 'h lookup) \<times> ('db, 'h) realm_instance" where
  "realm_filtered eng h query r =
     (eng_filtered eng (db r) h query, r\<lparr>trace := trace r @ [Filtered h query]\<rparr>)"

definition realm_create ::
  "('db, 'h) engine \<Rightarrow> string \<Rightarrow> jsobj \<Rightarrow> bool \<Rightarrow> ('db, 'h) realm_instance \<Rightarrow>
     (js_error + 'h) \<times> ('db, 'h) realm_instance" where
  "realm_create eng key v updating r =
     (case eng_create eng (db r) key v updating of
        Inl e \<Rightarrow> (Inl e, r\<lparr>trace := trace r @ [Create key v updating]\<rparr>)
      | Inr (item, d) \<Rightarrow> (Inr item, r\<lparr>db := d, trace := trace r @ [Create key v updating]\<rparr>))"

definition realm_delete ::
  "('db, 'h) engine \<Rightarrow> 'h \<Rightarrow> ('db, 'h) realm_instance \<Rightarrow>
     (js_error + unit) \<times> ('db, 'h) realm_instance" where
  "realm_delete eng h r =
     (case eng_delete eng (db r) h of
        Inl e \<Rightarrow> (Inl e, r\<lparr>trace := trace r @ [Delete h]\<rparr>)
      | Inr d \<Rightarrow> (Inr (), r\<lparr>db := d, trace := trace r @ [Delete h]\<rparr>))"

definition realm_write ::
  "(('db, 'h) realm_instance \<Rightarrow> (js_error + 'a) \<times> ('db, 'h) realm_instance) \<Rightarrow>
     ('db, 'h) realm_instance \<Rightarrow> (js_error + 'a) \<times> ('db, 'h) realm_instance" where
  \<comment> \<open>Modelled from the spec: \<^verbatim>\<open>realm.write(callback)\<close> belongs to the engine, which is
      not part of the sources. It is one atomic write scope: begin a transaction, run
      the callback, commit; when the callback throws, the whole scope fails, the
      transaction is cancelled (the database is as it was before it) and the error is
      thrown on.\<close>
  "realm_write callback r =
     (case callback (r\<lparr>trace := trace r @ [BeginTransaction]\<rparr>) of
        (Inl e, r') \<Rightarrow> (Inl e, r'\<lparr>db := db r, trace := trace r' @ [CancelTransaction]\<rparr>)
      | (Inr x, r') \<Rightarrow> (Inr x, r'\<lparr>trace := trace r' @ [CommitTransaction]\<rparr>))"

section \<open>The storage class\<close>

text \<open>
  The static fields of \<^verbatim>\<open>RealmStorage\<close>. The error callback is a function of the caller:
  the model keeps which function it is (its label) and what a call of it does with the
  error it is given, which is to return normally (\<open>None\<close>) or to throw an error of its
  own. Every call of the callback, and every line written to the console, is recorded
  in \<open>sink\<close>.
\<close>

datatype callback = Callback (cb_label: string) (cb_throws: "js_error \<Rightarrow> js_error option")

datatype sink_event =
    CallbackCall callback js_error
  | ConsoleErrorText string
  | ConsoleErrorValue js_error

record ('db, 'h) storage =
  schemas :: "schema list"
  schemaNames :: "string list"
  primaryKeys :: "string \<rightharpoonup> string option"
  errorCallback :: "callback option"
  realm :: "('db, 'h) realm_instance"
  sink :: "sink_event list"

type_synonym ('db, 'h, 'a) storage_op =
  "('db, 'h) storage \<Rightarrow> (js_error + 'a) \<times> ('db, 'h) storage"

definition with_realm ::
  "(('db, 'h) realm_instance \<Rightarrow> 'a \<times> ('db, 'h) realm_instance) \<Rightarrow>
     ('db, 'h) storage \<Rightarrow> 'a \<times> ('db, 'h) storage" where
  \<comment> \<open>A call on \<^verbatim>\<open>RealmStorage.realm\<close>.\<close>
  "with_realm f st = (case f (realm st) of (x, r') \<Rightarrow> (x, st\<lparr>realm := r'\<rparr>))"

definition setup_storage ::
  "('db, 'h) engine \<Rightarrow> schema list \<Rightarrow> int option \<Rightarrow> migration option \<Rightarrow> callback option \<Rightarrow>
     js_error + ('db, 'h) storage" where
  \<comment> \<open>\<^verbatim>\<open>setup\<close>. The fields are assigned and the instance is opened; a failure to open
      is thrown to the caller as it is.\<close>
  "setup_storage eng schemas0 version migration0 errorCallback0 =
     (case eng_open eng
        \<lparr>cfg_schema = schemas0,
         cfg_schemaVersion = (case version of None \<Rightarrow> 1 | Some v \<Rightarrow> if v = 0 then 1 else v),
         cfg_migration = (case migration0 of None \<Rightarrow> DefaultMigration | Some m \<Rightarrow> m)\<rparr> of
        Inl e \<Rightarrow> Inl e
      | Inr d \<Rightarrow>
          Inr \<lparr>schemas = schemas0,
               schemaNames = map name schemas0,
               primaryKeys = foldl (\<lambda>m s. m(name s \<mapsto> primaryKey s)) Map.empty schemas0,
               errorCallback = errorCallback0,
               realm = \<lparr>db = d, trace = []\<rparr>,
               sink = []\<rparr>)"

definition checkSchema :: "string \<Rightarrow> ('db, 'h, unit) storage_op" where
  "checkSchema key st =
     (if indexOf (schemaNames st) key < 0
      then (Inl (new_Error (''Schema for '' @ key @ '' it's not defined.'')), st)
      else (Inr (), st))"

definition getAllKeys :: "('db, 'h, string list) storage_op" where
  "getAllKeys st = (Inr (schemaNames st), st)"

definition getModel :: "('db, 'h) storage \<Rightarrow> ('db, 'h) realm_instance" where
  "getModel st = realm st"

definition onUncaught :: "js_error \<Rightarrow> ('db, 'h, unit) storage_op" where
  \<comment> \<open>The callback is called when there is one, and what it throws is thrown on;
      without a callback two lines go to the console.\<close>
  "onUncaught error st =
     (case errorCallback st of
        Some cb \<Rightarrow>
          ((case cb_throws cb error of Some thrown \<Rightarrow> Inl thrown | None \<Rightarrow> Inr ()),
           st\<lparr>sink := sink st @ [CallbackCall cb error]\<rparr>)
      | None \<Rightarrow>
          (Inr (),
           st\<lparr>sink := sink st @
             [ConsoleErrorText ''-------- ERROR CALLBACK NOT DEFINED ON STORAGE CLASS --------'',
              ConsoleErrorValue error]\<rparr>))"

definition catch_block :: "js_error \<Rightarrow> ('db, 'h, 'a) storage_op" where
  \<comment> \<open>\<^verbatim>\<open>catch (error) { this.onUncaught(error); throw new Error(error); }\<close>\<close>
  "catch_block error st =
     (case onUncaught error st of
        (Inl thrown, st') \<Rightarrow> (Inl thrown, st')
      | (Inr _, st') \<Rightarrow> (Inl (new_Error_of error), st'))"

definition try_catch :: "('db, 'h, 'a) storage_op \<Rightarrow> ('db, 'h, 'a) storage_op" where
  \<comment> \<open>\<^verbatim>\<open>try { body } catch (error) { ... }\<close>\<close>
  "try_catch body st =
     (case body st of
        (Inl error, st') \<Rightarrow> catch_block error st'
      | (Inr x, st') \<Rightarrow> (Inr x, st'))"

datatype filter_spec = FString string | FObject jsobj

definition convertFilter :: "filter_spec \<Rightarrow> string" where
  "convertFilter flt =
     (case flt of
        FString s \<Rightarrow> s
      | FObject obj \<Rightarrow>
          join
            (foldl (\<lambda>query key. query @ [key @ '' = '' @ to_string (prop_get obj key)])
               [] (Object_keys obj))
            '' AND '')"

definition createItem :: "('db, 'h) engine \<Rightarrow> string \<Rightarrow> jsobj \<Rightarrow> ('db, 'h, 'h) storage_op" where
  "createItem eng key v =
     try_catch (\<lambda>st.
       case checkSchema key st of
         (Inl e, st1) \<Rightarrow> (Inl e, st1)
       | (Inr _, st1) \<Rightarrow> with_realm (realm_write (realm_create eng key v False)) st1)"

definition updateItem :: "('db, 'h) engine \<Rightarrow> string \<Rightarrow> jsobj \<Rightarrow> ('db, 'h, 'h) storage_op" where
  "updateItem eng key v =
     try_catch (\<lambda>st.
       case checkSchema key st of
         (Inl e, st1) \<Rightarrow> (Inl e, st1)
       | (Inr _, st1) \<Rightarrow> with_realm (realm_write (realm_create eng key v True)) st1)"

definition deleteItem :: "('db, 'h) engine \<Rightarrow> 'h \<Rightarrow> ('db, 'h, unit) storage_op" where
  "deleteItem eng item =
     try_catch (with_realm (realm_write (realm_delete eng item)))"

definition falsy_filter :: "filter_spec option \<Rightarrow> bool" where
  \<comment> \<open>\<^verbatim>\<open>!filter\<close>: the argument was left out, or it is the empty string.\<close>
  "falsy_filter flt =
     (case flt of None \<Rightarrow> True | Some (FString s) \<Rightarrow> s = [] | Some (FObject _) \<Rightarrow> False)"

definition getItems ::
  "('db, 'h) engine \<Rightarrow> string \<Rightarrow> filter_spec option \<Rightarrow> ('db, 'h, 'h option) storage_op" where
  \<comment> \<open>The result \<open>None\<close> is \<^verbatim>\<open>null\<close>.\<close>
  "getItems eng key flt =
     try_catch (\<lambda>st.
       case checkSchema key st of
         (Inl e, st1) \<Rightarrow> (Inl e, st1)
       | (Inr _, st1) \<Rightarrow>
           (case
              (if falsy_filter flt then with_realm (realm_objects eng key) st1
               else
                 (case with_realm (realm_objects eng key) st1 of
                    (Inl e, st2) \<Rightarrow> (Inl e, st2)
                  | (Inr Falsy, st2) \<Rightarrow> (Inl (eng_type_error eng), st2)
                  | (Inr (Results h), st2) \<Rightarrow>
                      with_realm (realm_filtered eng h (convertFilter (the flt))) st2))
            of
              (Inl e, st3) \<Rightarrow> (Inl e, st3)
            | (Inr (Results data), st3) \<Rightarrow> (Inr (Some data), st3)
            | (Inr Falsy, st3) \<Rightarrow> (Inr None, st3)))"

definition removeAll_of ::
  "('db, 'h) engine \<Rightarrow> string \<Rightarrow> ('db, 'h, unit) storage_op" where
  \<comment> \<open>The records of one type: the lookup, then the deletion in a transaction.\<close>
  "removeAll_of eng nm st =
     (case with_realm (realm_objects eng nm) st of
        (Inl e, st1) \<Rightarrow> (Inl e, st1)
      | (Inr Falsy, st1) \<Rightarrow> (Inr (), st1)
      | (Inr (Results data), st1) \<Rightarrow> with_realm (realm_write (realm_delete eng data)) st1)"

fun removeAll_each ::
  "('db, 'h) engine \<Rightarrow> string list \<Rightarrow> ('db, 'h, unit) storage_op" where
  \<comment> \<open>\<^verbatim>\<open>for (let name of RealmStorage.schemaNames) { ... }\<close>\<close>
  "removeAll_each eng [] st = (Inr (), st)"
| "removeAll_each eng (nm # nms) st =
     (case removeAll_of eng nm st of
        (Inl e, st1) \<Rightarrow> (Inl e, st1)
      | (Inr _, st1) \<Rightarrow> removeAll_each eng nms st1)"

definition truthy_key :: "string option \<Rightarrow> bool" where
  \<comment> \<open>\<^verbatim>\<open>if (key)\<close>: the argument was given and is not the empty string.\<close>
  "truthy_key key = (case key of None \<Rightarrow> False | Some k \<Rightarrow> k \<noteq> [])"

definition removeAll_storage :: "('db, 'h) engine \<Rightarrow> string option \<Rightarrow> ('db, 'h, unit) storage_op" where
  \<comment> \<open>\<^verbatim>\<open>removeAll\<close> of the storage class. The name may be left out (\<open>None\<close>).\<close>
  "removeAll_storage eng key =
     try_catch (\<lambda>st.
       if truthy_key key then
         (case checkSchema (the key) st of
            (Inl e, st1) \<Rightarrow> (Inl e, st1)
          | (Inr _, st1) \<Rightarrow> removeAll_of eng (the key) st1)
       else removeAll_each eng (schemaNames st) st)"

text \<open>A call of a public operation by the application, and a run of such calls.\<close>

datatype 'h call =
    CreateItem string jsobj
  | UpdateItem string jsobj
  | DeleteItem 'h
  | GetItems string "filter_spec option"
  | RemoveAll "string option"

fun perform :: "('db, 'h) engine \<Rightarrow> 'h call \<Rightarrow> ('db, 'h) storage \<Rightarrow> ('db, 'h) storage" where
  "perform eng (CreateItem key v) st = snd (createItem eng key v st)"
| "perform eng (UpdateItem key v) st = snd (updateItem eng key v st)"
| "perform eng (DeleteItem item) st = snd (deleteItem eng item st)"
| "perform eng (GetItems key flt) st = snd (getItems eng key flt st)"
| "perform eng (RemoveAll key) st = snd (removeAll_storage eng key st)"

definition perform_all ::
  "('db, 'h) engine \<Rightarrow> 'h call list \<Rightarrow> ('db, 'h) storage \<Rightarrow> ('db, 'h) storage" where
  "perform_all eng calls st = foldl (\<lambda>s c. perform eng c s) st calls"

text \<open>
  A run of \<open>removeAll\<close> without a name, described from the engine's side. The list
  pairs each type name, in turn, with what the lookup of its records gives at that
  point. \<open>deletions\<close> is the database the engine is left with when each collection
  looked up has been deleted (a falsy lookup deletes nothing), or \<open>None\<close> when a lookup
  does not give what the list says or a deletion fails. \<open>transactions\<close> is the
  sequence of calls on the instance: for each type the lookup, and for each
  collection a transaction of its own around its deletion.
\<close>

fun deletions :: "('db, 'h) engine \<Rightarrow> 'db \<Rightarrow> (string \<times> 'h lookup) list \<Rightarrow> 'db option" where
  "deletions eng d [] = Some d"
| "deletions eng d ((nm, l) # steps) =
     (if eng_objects eng d nm = Inr l then
        (case l of
           Falsy \<Rightarrow> deletions eng d steps
         | Results h \<Rightarrow>
             (case eng_delete eng d h of
                Inl e \<Rightarrow> None
              | Inr d' \<Rightarrow> deletions eng d' steps))
      else None)"

fun transactions :: "(string \<times> 'h lookup) list \<Rightarrow> 'h event list" where
  "transactions [] = []"
| "transactions ((nm, Falsy) # steps) = Objects nm # transactions steps"
| "transactions ((nm, Results h) # steps) =
     [Objects nm, BeginTransaction, Delete h, CommitTransaction] @ transactions steps"

section \<open>A reference engine\<close>

text \<open>
  Modelled from the spec: the embedded engine (the \<^verbatim>\<open>realm\<close> package) is not part of the
  sources. This engine keeps the records of every type in a list, creates with the
  update mode the spec describes (a record with the same primary key has the fields
  present in the value overwritten and its other fields left untouched), and refuses to
  delete the records of the types listed in \<open>locked\<close>, which stands for a deletion the
  engine rejects. The \<^verbatim>\<open>TypeError\<close> is worded as one runtime words it.
\<close>

record ref_db =
  ref_schema :: "schema list"
  rows :: "(string \<times> jsobj) list"

datatype ref_handle = RObject string jsobj | RResults string | RFiltered string string

definition ref_objects :: "ref_db \<Rightarrow> string \<Rightarrow> js_error + ref_handle lookup" where
  \<comment> \<open>Modelled from the spec: the engine's \<^verbatim>\<open>objects\<close>, the live collection of a type.\<close>
  "ref_objects d t =
     (if t \<in> set (map name (ref_schema d)) then Inr (Results (RResults t))
      else Inl (JsError ''Error'' (''Object type '' @ t @ '' not found in schema.'')))"

definition ref_filtered :: "ref_db \<Rightarrow> ref_handle \<Rightarrow> string \<Rightarrow> js_error + ref_handle lookup" where
  \<comment> \<open>Modelled from the spec: the engine's \<^verbatim>\<open>filtered\<close>; the view keeps the query, which
      is not evaluated here.\<close>
  "ref_filtered d h query =
     (case h of
        RResults t \<Rightarrow> Inr (Results (RFiltered t query))
      | _ \<Rightarrow> Inl (JsError ''Error'' ''Not a collection.''))"

definition merge_obj :: "jsobj \<Rightarrow> jsobj \<Rightarrow> jsobj" where
  \<comment> \<open>Modelled from the spec: the merge of update mode. The fields of \<open>old\<close>, each
      overwritten by the value's when the value has it, then the fields only the value
      has.\<close>
  "merge_obj old v =
     map (\<lambda>(f, x). (f, case map_of v f of Some y \<Rightarrow> y | None \<Rightarrow> x)) old @
     filter (\<lambda>(f, y). map_of old f = None) v"

definition has_key :: "string \<Rightarrow> string \<Rightarrow> jsval \<Rightarrow> string \<times> jsobj \<Rightarrow> bool" where
  "has_key t pk k row = (fst row = t \<and> map_of (snd row) pk = Some k)"

definition ref_create ::
  "ref_db \<Rightarrow> string \<Rightarrow> jsobj \<Rightarrow> bool \<Rightarrow> js_error + (ref_handle \<times> ref_db)" where
  \<comment> \<open>Modelled from the spec: the engine's \<^verbatim>\<open>create\<close>. A type with a primary key holds at
      most one record for each value of the key; in update mode the record with the
      same key is merged with the value, otherwise a second one is refused.\<close>
  "ref_create d t v updating =
     (case find (\<lambda>s. name s = t) (ref_schema d) of
        None \<Rightarrow> Inl (JsError ''Error'' (''Object type '' @ t @ '' not found in schema.''))
      | Some s \<Rightarrow>
          (case primaryKey s of
             None \<Rightarrow> Inr (RObject t v, d\<lparr>rows := rows d @ [(t, v)]\<rparr>)
           | Some pk \<Rightarrow>
               (case map_of v pk of
                  None \<Rightarrow> Inl (JsError ''Error'' (''Missing value for property '' @ pk))
                | Some k \<Rightarrow>
                    (case find (has_key t pk k) (rows d) of
                       None \<Rightarrow> Inr (RObject t v, d\<lparr>rows := rows d @ [(t, v)]\<rparr>)
                     | Some old \<Rightarrow>
                         if updating
                         then Inr (RObject t (merge_obj (snd old) v),
                                d\<lparr>rows := map (\<lambda>row. if has_key t pk k row
                                                      then (t, merge_obj (snd row) v) else row)
                                              (rows d)\<rparr>)
                         else Inl (JsError ''Error''
                                (''Attempting to create an object of type '' @ t @
                                 '' with an existing primary key value.''))))))"

definition ref_delete :: "string list \<Rightarrow> ref_db \<Rightarrow> ref_handle \<Rightarrow> js_error + ref_db" where
  \<comment> \<open>Modelled from the spec: the engine's \<^verbatim>\<open>delete\<close>, of one record or of all the records
      of a type.\<close>
  "ref_delete locked d h =
     (case h of
        RObject t obj \<Rightarrow>
          (if t \<in> set locked then Inl (JsError ''Error'' (''Cannot delete from '' @ t))
           else Inr (d\<lparr>rows := remove1 (t, obj) (rows d)\<rparr>))
      | RResults t \<Rightarrow>
          (if t \<in> set locked then Inl (JsError ''Error'' (''Cannot delete from '' @ t))
           else Inr (d\<lparr>rows := filter (\<lambda>row. fst row \<noteq> t) (rows d)\<rparr>))
      | RFiltered t query \<Rightarrow> Inl (JsError ''Error'' ''Cannot delete a filtered view.''))"

definition ref_engine :: "string list \<Rightarrow> (ref_db, ref_handle) engine" where
  "ref_engine locked =
     \<lparr>eng_open = (\<lambda>cfg. Inr \<lparr>ref_schema = cfg_schema cfg, rows = []\<rparr>),
      eng_objects = ref_objects,
      eng_filtered = ref_filtered,
      eng_create = ref_create,
      eng_delete = ref_delete locked,
      eng_type_error = JsError ''TypeError'' ''Cannot read property 'filtered' of null''\<rparr>"

text \<open>
  The state the examples start from: two schemas, \<open>User\<close> with the primary key \<open>id\<close>
  and \<open>Note\<close> without one, version 1, no migration and no error callback.
\<close>

definition example_schemas :: "schema list" where
  "example_schemas =
     [\<lparr>name = ''User'', primaryKey = Some ''id'', properties = []\<rparr>,
      \<lparr>name = ''Note'', primaryKey = None, properties = []\<rparr>]"

definition example_storage :: "(ref_db, ref_handle) storage" where
  "example_storage =
     \<lparr>schemas = example_schemas,
      schemaNames = [''User'', ''Note''],
      primaryKeys = foldl (\<lambda>m s. m(name s \<mapsto> primaryKey s)) Map.empty example_schemas,
      errorCallback = None,
      realm = \<lparr>db = \<lparr>ref_schema = example_schemas, rows = []\<rparr>, trace = []\<rparr>,
      sink = []\<rparr>"

definition example_populated :: "(ref_db, ref_handle) storage" where
  \<comment> \<open>The same, with one record of each type in the database.\<close>
  "example_populated =
     example_storage
       \<lparr>realm :=
          \<lparr>db = \<lparr>ref_schema = example_schemas,
                  rows = [(''User'', [(''id'', JNum 1), (''name'', JStr ''Ann'')]),
                          (''Note'', [(''text'', JStr ''hi'')])]\<rparr>,
           trace = []\<rparr>\<rparr>"

definition example_reporting :: "(ref_db, ref_handle) storage" where
  \<comment> \<open>The populated state, with an error callback that returns normally.\<close>
  "example_reporting =
     example_populated\<lparr>errorCallback := Some (Callback ''report'' (\<lambda>error. None))\<rparr>"

definition example_throwing :: "(ref_db, ref_handle) storage" where
  \<comment> \<open>The populated state, with an error callback that throws an error of its own.\<close>
  "example_throwing =
     example_populated
       \<lparr>errorCallback :=
          Some (Callback ''report'' (\<lambda>error. Some (JsError ''RangeError'' ''report failed'')))\<rparr>"


section \<open>Schema validation\<close>

lemma indexOf_from_negative: "0 \<le> i \<Longrightarrow> indexOf_from xs x i < 0 \<longleftrightarrow> x \<notin> set xs"
proof (induction xs arbitrary: i)
  case Nil
  then show ?case by simp
next
  case (Cons y ys)
  from Cons.prems have "0 \<le> i + 1" by simp
  from Cons.IH [OF this] Cons.prems show ?case by auto
qed

lemma indexOf_negative: "indexOf xs x < 0 \<longleftrightarrow> x \<notin> set xs"
  by (simp add: indexOf_def indexOf_from_negative)

text \<open>
  Claim C1. For every name in the schema list given to setup, \<open>checkSchema\<close> returns
  normally and leaves the state as it was; for every name that is not in the list it
  throws an error whose message carries the offending name, again with the state
  untouched.
\<close>

theorem checkSchema_registered_or_raises:
  assumes "setup_storage eng schemas0 version migration0 cb = Inr st"
  shows "(key \<in> set (map name schemas0) \<longrightarrow> checkSchema key st = (Inr (), st)) \<and>
         (key \<notin> set (map name schemas0) \<longrightarrow>
            checkSchema key st =
              (Inl (JsError ''Error'' (''Schema for '' @ key @ '' it's not defined.'')), st))"
proof -
  from assms have "schemaNames st = map name schemas0"
    by (auto simp: setup_storage_def split: sum.splits)
  then show ?thesis
    by (simp add: checkSchema_def indexOf_negative new_Error_def)
qed

lemma example_setup:
  "setup_storage (ref_engine locked) example_schemas (Some 1) None None = Inr example_storage"
  by (simp add: setup_storage_def ref_engine_def example_storage_def example_schemas_def)

theorem checkSchema_registered_or_raises_witness:
  "setup_storage (ref_engine []) example_schemas (Some 1) None None = Inr example_storage \<and>
   checkSchema ''User'' example_storage = (Inr (), example_storage) \<and>
   checkSchema ''Task'' example_storage =
     (Inl (JsError ''Error'' ''Schema for Task it's not defined.''), example_storage)"
proof -
  note s = example_setup [of "[]"]
  have a: "''User'' \<in> set (map name example_schemas)"
    and b: "''Task'' \<notin> set (map name example_schemas)"
    by (simp_all add: example_schemas_def)
  from checkSchema_registered_or_raises [OF s, of "''User''"] a
  have "checkSchema ''User'' example_storage = (Inr (), example_storage)" by blast
  moreover from checkSchema_registered_or_raises [OF s, of "''Task''"] b
  have "checkSchema ''Task'' example_storage =
     (Inl (JsError ''Error'' (''Schema for '' @ ''Task'' @ '' it's not defined.'')), example_storage)"
    by blast
  ultimately show ?thesis using s by simp
qed

section \<open>The filter translator\<close>

lemma foldl_push: "foldl (\<lambda>query key. query @ [f key]) acc ks = acc @ map f ks"
  by (induction ks arbitrary: acc) simp_all

lemma prop_get_distinct:
  "distinct (map fst obj) \<Longrightarrow> (k, v) \<in> set obj \<Longrightarrow> prop_get obj k = v"
  by (simp add: prop_get_def)

text \<open>
  Claim C3. \<open>convertFilter\<close> hands a string back unchanged; for a mapping it gives
  one clause \<open>field = value\<close> per key, in the order of the keys, joined by \<open>AND\<close>, the
  value being the string JavaScript converts it to, put in as it is, without quotes or
  escapes. The mapping \<open>{a: 1, b: "x"}\<close> gives \<open>a = 1 AND b = x\<close>.
\<close>

theorem convertFilter_clauses:
  "convertFilter (FString s) = s \<and>
   (distinct (map fst obj) \<longrightarrow>
      convertFilter (FObject obj) =
        join (map (\<lambda>(k, v). k @ '' = '' @ to_string v) obj) '' AND '') \<and>
   convertFilter (FObject [(''a'', JNum 1), (''b'', JStr ''x'')]) = ''a = 1 AND b = x''"
proof (intro conjI impI)
  show "convertFilter (FString s) = s"
    by (simp add: convertFilter_def)
next
  assume d: "distinct (map fst obj)"
  have m: "map (\<lambda>key. key @ '' = '' @ to_string (prop_get obj key)) (map fst obj) =
        map (\<lambda>(k, v). k @ '' = '' @ to_string v) obj"
    using prop_get_distinct [OF d] by auto
  have "convertFilter (FObject obj) =
        join (map (\<lambda>key. key @ '' = '' @ to_string (prop_get obj key)) (map fst obj)) '' AND ''"
    unfolding convertFilter_def Object_keys_def foldl_push by (simp del: map_map)
  with m show "convertFilter (FObject obj) =
        join (map (\<lambda>(k, v). k @ '' = '' @ to_string v) obj) '' AND ''"
    by (simp only:)
next
  show "convertFilter (FObject [(''a'', JNum 1), (''b'', JStr ''x'')]) = ''a = 1 AND b = x''"
    by (simp add: convertFilter_def Object_keys_def prop_get_def string_of_nat.simps digit_def)
qed

theorem convertFilter_clauses_witness:
  "distinct (map fst [(''id'', JNum 42), (''name'', JStr ''Ann''), (''admin'', JBool True)]) \<and>
   convertFilter (FObject [(''id'', JNum 42), (''name'', JStr ''Ann''), (''admin'', JBool True)]) =
     ''id = 42 AND name = Ann AND admin = true'' \<and>
   distinct (map fst [(''n'', JOther ''1e+21''), (''m'', JNum (- 7)),
                      (''top'', JNum 9007199254740991)]) \<and>
   convertFilter (FObject [(''n'', JOther ''1e+21''), (''m'', JNum (- 7)),
                           (''top'', JNum 9007199254740991)]) =
     ''n = 1e+21 AND m = -7 AND top = 9007199254740991''"
  using convertFilter_clauses [of "[]"
      "[(''id'', JNum 42), (''name'', JStr ''Ann''), (''admin'', JBool True)]"]
    convertFilter_clauses [of "[]"
      "[(''n'', JOther ''1e+21''), (''m'', JNum (- 7)), (''top'', JNum 9007199254740991)]"]
  by (simp add: string_of_nat.simps digit_def)

text \<open>
  Claim C9. \<open>convertFilter\<close> on a mapping without keys gives the empty string.
\<close>

theorem convertFilter_empty: "convertFilter (FObject []) = ''''"
  by (simp add: convertFilter_def Object_keys_def)


section \<open>What an operation leaves untouched\<close>

lemma checkSchema_registered:
  "key \<in> set (schemaNames st) \<Longrightarrow> checkSchema key st = (Inr (), st)"
  by (simp add: checkSchema_def indexOf_negative)

lemma checkSchema_unregistered:
  "key \<notin> set (schemaNames st) \<Longrightarrow>
     checkSchema key st = (Inl (new_Error (''Schema for '' @ key @ '' it's not defined.'')), st)"
  by (simp add: checkSchema_def indexOf_negative)

lemma self_frame: "\<exists>r. st = st\<lparr>realm := r\<rparr>"
  by (rule exI [of _ "realm st"]) simp

lemma with_realm_frame: "\<exists>r. snd (with_realm f st) = st\<lparr>realm := r\<rparr>"
  by (auto simp: with_realm_def split: prod.splits)

lemma removeAll_of_frame: "\<exists>r. snd (removeAll_of eng nm st) = st\<lparr>realm := r\<rparr>"
proof -
  obtain res st1 where a: "with_realm (realm_objects eng nm) st = (res, st1)"
    by (cases "with_realm (realm_objects eng nm) st")
  from with_realm_frame [of "realm_objects eng nm" st] a
  obtain r1 where r1: "st1 = st\<lparr>realm := r1\<rparr>" by auto
  show ?thesis
  proof (cases res)
    case (Inl e)
    with a r1 show ?thesis by (auto simp: removeAll_of_def)
  next
    case (Inr l)
    show ?thesis
    proof (cases l)
      case Falsy
      with Inr a r1 show ?thesis by (auto simp: removeAll_of_def)
    next
      case (Results data)
      from with_realm_frame [of "realm_write (realm_delete eng data)" st1]
      obtain r2 where "snd (with_realm (realm_write (realm_delete eng data)) st1) = st1\<lparr>realm := r2\<rparr>"
        by auto
      with Results Inr a r1 show ?thesis by (auto simp: removeAll_of_def)
    qed
  qed
qed

lemma removeAll_each_frame: "\<exists>r. snd (removeAll_each eng nms st) = st\<lparr>realm := r\<rparr>"
proof (induction nms arbitrary: st)
  case Nil
  show ?case by (simp add: self_frame)
next
  case (Cons nm nms)
  obtain res st1 where a: "removeAll_of eng nm st = (res, st1)"
    by (cases "removeAll_of eng nm st")
  from removeAll_of_frame [of eng nm st] a
  obtain r1 where r1: "st1 = st\<lparr>realm := r1\<rparr>" by auto
  show ?case
  proof (cases res)
    case (Inl e)
    with a r1 show ?thesis by auto
  next
    case (Inr u)
    from Cons.IH [of st1] obtain r2 where "snd (removeAll_each eng nms st1) = st1\<lparr>realm := r2\<rparr>"
      by auto
    with Inr a r1 show ?thesis by auto
  qed
qed

lemma onUncaught_state:
  "snd (onUncaught error st) =
     st\<lparr>sink := sink st @
       (case errorCallback st of
          Some cb \<Rightarrow> [CallbackCall cb error]
        | None \<Rightarrow>
            [ConsoleErrorText ''-------- ERROR CALLBACK NOT DEFINED ON STORAGE CLASS --------'',
             ConsoleErrorValue error])\<rparr>"
  by (simp add: onUncaught_def split: option.splits)

lemma onUncaught_result:
  "fst (onUncaught error st) =
     (case errorCallback st of
        None \<Rightarrow> Inr ()
      | Some cb \<Rightarrow> (case cb_throws cb error of Some thrown \<Rightarrow> Inl thrown | None \<Rightarrow> Inr ()))"
  by (simp add: onUncaught_def split: option.splits)

lemma catch_block_state: "snd (catch_block error st) = snd (onUncaught error st)"
  by (cases "onUncaught error st") (simp add: catch_block_def split: sum.splits)

lemma catch_block_error:
  "fst (catch_block error st) =
     Inl (case fst (onUncaught error st) of Inl thrown \<Rightarrow> thrown | Inr u \<Rightarrow> new_Error_of error)"
  by (cases "onUncaught error st") (simp add: catch_block_def split: sum.splits)

lemma catch_block_raises: "\<exists>err. fst (catch_block error st) = Inl err"
  by (simp add: catch_block_error)

lemma catch_block_returns:
  "fst (onUncaught error st) = Inr () \<Longrightarrow>
   catch_block error st = (Inl (new_Error_of error), snd (onUncaught error st))"
  by (cases "onUncaught error st") (simp add: catch_block_def)

lemma realm_catch_block: "realm (snd (catch_block error st)) = realm st"
  by (simp add: catch_block_state onUncaught_state)

lemma try_catch_frame:
  assumes "\<exists>r. snd (body st) = st\<lparr>realm := r\<rparr>"
  shows "\<exists>r s. snd (try_catch body st) = st\<lparr>realm := r, sink := s\<rparr>"
proof -
  from assms obtain r where r: "snd (body st) = st\<lparr>realm := r\<rparr>" ..
  obtain res st1 where a: "body st = (res, st1)" by (cases "body st")
  with r have st1: "st1 = st\<lparr>realm := r\<rparr>" by simp
  show ?thesis
  proof (cases res)
    case (Inl e)
    with a st1 have "snd (try_catch body st) =
        st\<lparr>realm := r, sink := sink (snd (onUncaught e st1))\<rparr>"
      by (simp add: try_catch_def catch_block_state onUncaught_state)
    then show ?thesis by blast
  next
    case (Inr x)
    with a st1 have "snd (try_catch body st) = st\<lparr>realm := r, sink := sink st\<rparr>"
      by (simp add: try_catch_def)
    then show ?thesis by blast
  qed
qed

lemma checked_frame:
  assumes "\<And>s. \<exists>r. snd (f s) = s\<lparr>realm := r\<rparr>"
  shows "\<exists>r. snd (case checkSchema key st of (Inl e, st1) \<Rightarrow> (Inl e, st1) | (Inr u, st1) \<Rightarrow> f st1) = st\<lparr>realm := r\<rparr>"
proof (cases "key \<in> set (schemaNames st)")
  case True
  with assms [of st] show ?thesis by (simp add: checkSchema_registered)
next
  case False
  with self_frame [of st] show ?thesis by (simp add: checkSchema_unregistered)
qed


section \<open>Calls on the instance\<close>

lemma objects_call:
  "with_realm (realm_objects eng key) st =
     (eng_objects eng (db (realm st)) key,
      st\<lparr>realm := (realm st)\<lparr>trace := trace (realm st) @ [Objects key]\<rparr>\<rparr>)"
  by (simp add: with_realm_def realm_objects_def)

lemma filtered_call:
  "with_realm (realm_filtered eng h query) st =
     (eng_filtered eng (db (realm st)) h query,
      st\<lparr>realm := (realm st)\<lparr>trace := trace (realm st) @ [Filtered h query]\<rparr>\<rparr>)"
  by (simp add: with_realm_def realm_filtered_def)

lemma write_create_fails:
  "eng_create eng (db (realm st)) key v u = Inl e \<Longrightarrow>
   with_realm (realm_write (realm_create eng key v u)) st =
     (Inl e, st\<lparr>realm := (realm st)\<lparr>trace := trace (realm st) @
        [BeginTransaction, Create key v u, CancelTransaction]\<rparr>\<rparr>)"
  by (simp add: with_realm_def realm_write_def realm_create_def)

lemma write_create_commits:
  "eng_create eng (db (realm st)) key v u = Inr (item, d) \<Longrightarrow>
   with_realm (realm_write (realm_create eng key v u)) st =
     (Inr item, st\<lparr>realm := (realm st)\<lparr>db := d, trace := trace (realm st) @
        [BeginTransaction, Create key v u, CommitTransaction]\<rparr>\<rparr>)"
  by (simp add: with_realm_def realm_write_def realm_create_def)

lemma write_delete_fails:
  "eng_delete eng (db (realm st)) h = Inl e \<Longrightarrow>
   with_realm (realm_write (realm_delete eng h)) st =
     (Inl e, st\<lparr>realm := (realm st)\<lparr>trace := trace (realm st) @
        [BeginTransaction, Delete h, CancelTransaction]\<rparr>\<rparr>)"
  by (simp add: with_realm_def realm_write_def realm_delete_def)

lemma write_delete_commits:
  "eng_delete eng (db (realm st)) h = Inr d \<Longrightarrow>
   with_realm (realm_write (realm_delete eng h)) st =
     (Inr (), st\<lparr>realm := (realm st)\<lparr>db := d, trace := trace (realm st) @
        [BeginTransaction, Delete h, CommitTransaction]\<rparr>\<rparr>)"
  by (simp add: with_realm_def realm_write_def realm_delete_def)

lemma try_catch_failure:
  assumes "try_catch body st = (Inl err, st')" and "\<exists>r. snd (body st) = st\<lparr>realm := r\<rparr>"
  shows "\<exists>e r. body st = (Inl e, st\<lparr>realm := r\<rparr>) \<and>
           try_catch body st = catch_block e (st\<lparr>realm := r\<rparr>)"
proof -
  from assms(2) obtain r where r: "snd (body st) = st\<lparr>realm := r\<rparr>" ..
  obtain res st1 where a: "body st = (res, st1)" by (cases "body st")
  with r have st1: "st1 = st\<lparr>realm := r\<rparr>" by simp
  show ?thesis
  proof (cases res)
    case (Inl e)
    with a st1 have "try_catch body st = catch_block e (st\<lparr>realm := r\<rparr>)"
      by (simp add: try_catch_def)
    with Inl a st1 show ?thesis by blast
  next
    case (Inr x)
    with a assms(1) show ?thesis by (simp add: try_catch_def)
  qed
qed

lemma getItems_body_frame:
  "\<exists>r. snd (case
              (if falsy_filter flt then with_realm (realm_objects eng key) st1
               else
                 (case with_realm (realm_objects eng key) st1 of
                    (Inl e, st2) \<Rightarrow> (Inl e, st2)
                  | (Inr Falsy, st2) \<Rightarrow> (Inl (eng_type_error eng), st2)
                  | (Inr (Results h), st2) \<Rightarrow>
                      with_realm (realm_filtered eng h (convertFilter (the flt))) st2))
            of
              (Inl e, st3) \<Rightarrow> (Inl e, st3)
            | (Inr (Results data), st3) \<Rightarrow> (Inr (Some data), st3)
            | (Inr Falsy, st3) \<Rightarrow> (Inr None, st3)) = st1\<lparr>realm := r\<rparr>"
  by (auto simp: objects_call filtered_call split: sum.splits lookup.splits)

lemma createItem_frame: "\<exists>r s. snd (createItem eng key v st) = st\<lparr>realm := r, sink := s\<rparr>"
  unfolding createItem_def by (rule try_catch_frame) (rule checked_frame, rule with_realm_frame)

lemma updateItem_frame: "\<exists>r s. snd (updateItem eng key v st) = st\<lparr>realm := r, sink := s\<rparr>"
  unfolding updateItem_def by (rule try_catch_frame) (rule checked_frame, rule with_realm_frame)

lemma deleteItem_frame: "\<exists>r s. snd (deleteItem eng item st) = st\<lparr>realm := r, sink := s\<rparr>"
  unfolding deleteItem_def by (rule try_catch_frame) (rule with_realm_frame)

lemma getItems_frame: "\<exists>r s. snd (getItems eng key flt st) = st\<lparr>realm := r, sink := s\<rparr>"
  unfolding getItems_def by (rule try_catch_frame) (rule checked_frame, rule getItems_body_frame)

lemma removeAll_body_frame:
  "\<exists>r. snd (if truthy_key key then
         (case checkSchema (the key) st of
            (Inl e, st1) \<Rightarrow> (Inl e, st1)
          | (Inr _, st1) \<Rightarrow> removeAll_of eng (the key) st1)
       else removeAll_each eng (schemaNames st) st) = st\<lparr>realm := r\<rparr>"
proof (cases "truthy_key key")
  case True
  then show ?thesis using checked_frame [of "removeAll_of eng (the key)" "the key" st, OF removeAll_of_frame]
    by simp
next
  case False
  then show ?thesis using removeAll_each_frame [of eng "schemaNames st" st] by simp
qed

lemma removeAll_frame: "\<exists>r s. snd (removeAll_storage eng key st) = st\<lparr>realm := r, sink := s\<rparr>"
  unfolding removeAll_storage_def by (rule try_catch_frame) (rule removeAll_body_frame)

lemma perform_frame: "\<exists>r s. perform eng c st = st\<lparr>realm := r, sink := s\<rparr>"
  by (cases c)
    (simp_all add: createItem_frame updateItem_frame deleteItem_frame getItems_frame removeAll_frame)

lemma perform_all_frame: "\<exists>r s. perform_all eng calls st = st\<lparr>realm := r, sink := s\<rparr>"
proof (induction calls arbitrary: st)
  case Nil
  have "st = st\<lparr>realm := realm st, sink := sink st\<rparr>" by simp
  then show ?case unfolding perform_all_def foldl_Nil by blast
next
  case (Cons c calls)
  from perform_frame [of eng c st] obtain r s where a: "perform eng c st = st\<lparr>realm := r, sink := s\<rparr>"
    by blast
  from Cons.IH [of "perform eng c st"] obtain r' s' where
    "perform_all eng calls (perform eng c st) = (perform eng c st)\<lparr>realm := r', sink := s'\<rparr>"
    by blast
  with a have "perform_all eng (c # calls) st = st\<lparr>realm := r', sink := s'\<rparr>"
    by (simp add: perform_all_def)
  then show ?case by blast
qed

section \<open>The registered names\<close>

text \<open>
  Claim C8. After a setup, \<open>getAllKeys\<close> gives the names of the schema definitions
  passed to it, in their order, and still does after any run of calls of \<open>createItem\<close>,
  \<open>updateItem\<close>, \<open>deleteItem\<close>, \<open>getItems\<close> and \<open>removeAll\<close>.
\<close>

theorem getAllKeys_registration_order:
  assumes "setup_storage eng schemas0 version migration0 cb = Inr st"
  shows "fst (getAllKeys st) = Inr (map name schemas0) \<and>
         fst (getAllKeys (perform_all eng calls st)) = Inr (map name schemas0)"
proof -
  from assms have n: "schemaNames st = map name schemas0"
    by (auto simp: setup_storage_def split: sum.splits)
  from perform_all_frame [of eng calls st] obtain r s where
    "perform_all eng calls st = st\<lparr>realm := r, sink := s\<rparr>" by blast
  then have "schemaNames (perform_all eng calls st) = schemaNames st" by simp
  with n show ?thesis by (simp add: getAllKeys_def)
qed

theorem getAllKeys_registration_order_witness:
  "setup_storage (ref_engine []) example_schemas (Some 1) None None = Inr example_storage \<and>
   fst (getAllKeys (perform_all (ref_engine [])
          [CreateItem ''User'' [(''id'', JNum 1)], GetItems ''Task'' None, RemoveAll None]
          example_storage)) = Inr [''User'', ''Note'']"
proof -
  note s = example_setup [of "[]"]
  have m: "map name example_schemas = [''User'', ''Note'']"
    by (simp add: example_schemas_def)
  from getAllKeys_registration_order [OF s,
    of "[CreateItem ''User'' [(''id'', JNum 1)], GetItems ''Task'' None, RemoveAll None]"]
  have "fst (getAllKeys (perform_all (ref_engine [])
          [CreateItem ''User'' [(''id'', JNum 1)], GetItems ''Task'' None, RemoveAll None]
          example_storage)) = Inr (map name example_schemas)"
    by blast
  with s m show ?thesis by simp
qed


section \<open>Rejection of an unregistered name\<close>

lemma rejected:
  assumes "key \<notin> set (schemaNames st)"
  shows "try_catch (\<lambda>st. case checkSchema key st of
                           (Inl e, st1) \<Rightarrow> (Inl e, st1)
                         | (Inr u, st1) \<Rightarrow> f st1) st =
         catch_block (JsError ''Error'' (''Schema for '' @ key @ '' it's not defined.'')) st"
  using assms
  by (simp add: try_catch_def checkSchema_unregistered new_Error_def)

lemma accepted:
  assumes "key \<in> set (schemaNames st)"
  shows "try_catch (\<lambda>st. case checkSchema key st of
                           (Inl e, st1) \<Rightarrow> (Inl e, st1)
                         | (Inr u, st1) \<Rightarrow> f st1) st = try_catch f st"
  using assms by (simp add: try_catch_def checkSchema_registered)

lemma removeAll_truthy:
  "key \<noteq> [] \<Longrightarrow>
   removeAll_storage eng (Some key) st =
     try_catch (\<lambda>st. case checkSchema key st of
                       (Inl e, st1) \<Rightarrow> (Inl e, st1)
                     | (Inr u, st1) \<Rightarrow> removeAll_of eng key st1) st"
  by (simp add: removeAll_storage_def truthy_key_def try_catch_def checkSchema_def)

lemma removeAll_falsy:
  "\<not> truthy_key key \<Longrightarrow>
   removeAll_storage eng key st = try_catch (removeAll_each eng (schemaNames st)) st"
  by (simp add: removeAll_storage_def try_catch_def)

lemma wrapped_schema_error:
  "new_Error_of (JsError ''Error'' (''Schema for '' @ key @ '' it's not defined.'')) =
   JsError ''Error'' (''Error: Schema for '' @ key @ '' it's not defined.'')"
  by (simp add: new_Error_of_def new_Error_def error_toString_def)

text \<open>
  Claim C7, as amended. \<open>createItem\<close>, \<open>updateItem\<close> and \<open>getItems\<close>, and \<open>removeAll\<close>
  when it is given a name that is not the empty string, reject a name outside the
  schema set recorded at setup before the engine is touched: the operation goes
  straight to its catch block with the schema error, so it throws, and the instance
  (its database and the calls made on it) is as it was. The error thrown is the schema
  error wrapped in a new \<open>Error\<close> whenever the error callback returns normally or there
  is none. The claim as written also covers \<open>removeAll\<close> with the empty string, which
  the guard \<^verbatim>\<open>if (key)\<close> sends to the branch that deletes the records of every type.
\<close>

theorem unregistered_name_rejected:
  assumes "key \<notin> set (schemaNames st)"
  shows "((errorCallback st = None \<or>
           (\<exists>cb. errorCallback st = Some cb \<and>
              cb_throws cb (JsError ''Error'' (''Schema for '' @ key @ '' it's not defined.'')) =
                None)) \<longrightarrow>
          fst (createItem eng key v st) =
            Inl (JsError ''Error'' (''Error: Schema for '' @ key @ '' it's not defined.'')) \<and>
          fst (updateItem eng key v st) =
            Inl (JsError ''Error'' (''Error: Schema for '' @ key @ '' it's not defined.'')) \<and>
          fst (getItems eng key flt st) =
            Inl (JsError ''Error'' (''Error: Schema for '' @ key @ '' it's not defined.'')) \<and>
          (key \<noteq> '''' \<longrightarrow>
             fst (removeAll_storage eng (Some key) st) =
               Inl (JsError ''Error'' (''Error: Schema for '' @ key @ '' it's not defined.'')))) \<and>
         createItem eng key v st =
           catch_block (JsError ''Error'' (''Schema for '' @ key @ '' it's not defined.'')) st \<and>
         (\<exists>err. fst (createItem eng key v st) = Inl err) \<and>
         realm (snd (createItem eng key v st)) = realm st \<and>
         updateItem eng key v st =
           catch_block (JsError ''Error'' (''Schema for '' @ key @ '' it's not defined.'')) st \<and>
         (\<exists>err. fst (updateItem eng key v st) = Inl err) \<and>
         realm (snd (updateItem eng key v st)) = realm st \<and>
         getItems eng key flt st =
           catch_block (JsError ''Error'' (''Schema for '' @ key @ '' it's not defined.'')) st \<and>
         (\<exists>err. fst (getItems eng key flt st) = Inl err) \<and>
         realm (snd (getItems eng key flt st)) = realm st \<and>
         (key \<noteq> '''' \<longrightarrow>
            removeAll_storage eng (Some key) st =
              catch_block (JsError ''Error'' (''Schema for '' @ key @ '' it's not defined.'')) st \<and>
            (\<exists>err. fst (removeAll_storage eng (Some key) st) = Inl err) \<and>
            realm (snd (removeAll_storage eng (Some key) st)) = realm st)"
proof -
  let ?E = "JsError ''Error'' (''Schema for '' @ key @ '' it's not defined.'')"
  have c: "createItem eng key v st = catch_block ?E st"
    unfolding createItem_def by (rule rejected [OF assms])
  have u: "updateItem eng key v st = catch_block ?E st"
    unfolding updateItem_def by (rule rejected [OF assms])
  have g: "getItems eng key flt st = catch_block ?E st"
    unfolding getItems_def by (rule rejected [OF assms])
  have r: "removeAll_storage eng (Some key) st = catch_block ?E st" if "key \<noteq> ''''"
    unfolding removeAll_truthy [OF that] by (rule rejected [OF assms])
  show ?thesis
    unfolding c u g using r
    by (auto simp: catch_block_error realm_catch_block onUncaught_result new_Error_of_def
        new_Error_def error_toString_def)
qed

lemmas example_defs =
  example_populated_def example_storage_def example_schemas_def ref_engine_def
  ref_objects_def ref_filtered_def ref_create_def ref_delete_def

lemmas call_defs =
  try_catch_def catch_block_def checkSchema_def indexOf_def onUncaught_def with_realm_def
  realm_objects_def realm_filtered_def realm_create_def realm_delete_def realm_write_def
  removeAll_of_def new_Error_of_def new_Error_def error_toString_def

theorem unregistered_name_rejected_witness:
  "''Task'' \<notin> set (schemaNames example_populated) \<and>
   errorCallback example_populated = None \<and>
   fst (createItem (ref_engine []) ''Task'' [(''id'', JNum 1)] example_populated) =
     Inl (JsError ''Error'' ''Error: Schema for Task it's not defined.'') \<and>
   realm (snd (createItem (ref_engine []) ''Task'' [(''id'', JNum 1)] example_populated)) =
     realm example_populated \<and>
   ''Task'' \<noteq> '''' \<and>
   fst (removeAll_storage (ref_engine []) (Some ''Task'') example_populated) =
     Inl (JsError ''Error'' ''Error: Schema for Task it's not defined.'') \<and>
   realm (snd (removeAll_storage (ref_engine []) (Some ''Task'') example_populated)) =
     realm example_populated \<and>
   ''Task'' \<notin> set (schemaNames example_throwing) \<and>
   fst (createItem (ref_engine []) ''Task'' [(''id'', JNum 1)] example_throwing) =
     Inl (JsError ''RangeError'' ''report failed'') \<and>
   realm (snd (createItem (ref_engine []) ''Task'' [(''id'', JNum 1)] example_throwing)) =
     realm example_throwing"
proof -
  have n: "''Task'' \<notin> set (schemaNames example_populated)"
    and o: "errorCallback example_populated = None"
    and n': "''Task'' \<notin> set (schemaNames example_throwing)"
    and ne: "''Task'' \<noteq> ''''"
    by (simp_all add: example_populated_def example_storage_def example_throwing_def
        onUncaught_def)
  have t: "fst (catch_block (JsError ''Error'' (''Schema for '' @ ''Task'' @ '' it's not defined.''))
              example_throwing :: (js_error + ref_handle) \<times> _) =
           Inl (JsError ''RangeError'' ''report failed'')"
    by (simp add: catch_block_def onUncaught_def example_throwing_def)
  note T = unregistered_name_rejected [OF n, of "ref_engine []" "[(''id'', JNum 1)]" None]
  note A = T [THEN conjunct1, THEN mp, OF disjI1 [OF o]]
  note B = T [THEN conjunct2]
  note T' = unregistered_name_rejected [OF n', of "ref_engine []" "[(''id'', JNum 1)]" None,
    THEN conjunct2]
  note R = B [THEN conjunct2, THEN conjunct2, THEN conjunct2, THEN conjunct2, THEN conjunct2,
    THEN conjunct2, THEN conjunct2, THEN conjunct2, THEN conjunct2, THEN mp, OF ne]
  from T' [THEN conjunct1] t
  have 5: "fst (createItem (ref_engine []) ''Task'' [(''id'', JNum 1)] example_throwing) =
     Inl (JsError ''RangeError'' ''report failed'')"
    by simp
  from n o ne n' 5
    A [THEN conjunct1]
    B [THEN conjunct2, THEN conjunct2, THEN conjunct1]
    A [THEN conjunct2, THEN conjunct2, THEN conjunct2, THEN mp, OF ne]
    R [THEN conjunct2, THEN conjunct2]
    T' [THEN conjunct2, THEN conjunct2, THEN conjunct1]
  show ?thesis by simp
qed

theorem removeAll_empty_name_counterexample:
  "'''' \<notin> set (schemaNames example_populated) \<and>
   rows (db (realm example_populated)) =
     [(''User'', [(''id'', JNum 1), (''name'', JStr ''Ann'')]),
      (''Note'', [(''text'', JStr ''hi'')])] \<and>
   fst (removeAll_storage (ref_engine []) (Some '''') example_populated) = Inr () \<and>
   trace (realm (snd (removeAll_storage (ref_engine []) (Some '''') example_populated))) =
     [Objects ''User'', BeginTransaction, Delete (RResults ''User''), CommitTransaction,
      Objects ''Note'', BeginTransaction, Delete (RResults ''Note''), CommitTransaction] \<and>
   rows (db (realm (snd (removeAll_storage (ref_engine []) (Some '''') example_populated)))) = []"
  by (simp add: removeAll_storage_def truthy_key_def call_defs example_defs)


section \<open>Deleting the records of a type\<close>

lemma removeAll_of_lookup_fails:
  assumes "eng_objects eng (db (realm st)) nm = Inl e"
  shows "removeAll_of eng nm st =
     (Inl e, st\<lparr>realm := (realm st)\<lparr>trace := trace (realm st) @ [Objects nm]\<rparr>\<rparr>)"
  using assms by (simp add: removeAll_of_def objects_call)

lemma removeAll_of_falsy:
  assumes "eng_objects eng (db (realm st)) nm = Inr Falsy"
  shows "removeAll_of eng nm st =
     (Inr (), st\<lparr>realm := (realm st)\<lparr>trace := trace (realm st) @ [Objects nm]\<rparr>\<rparr>)"
  using assms by (simp add: removeAll_of_def objects_call)

lemma removeAll_of_delete_fails:
  assumes "eng_objects eng (db (realm st)) nm = Inr (Results h)"
    and "eng_delete eng (db (realm st)) h = Inl e"
  shows "removeAll_of eng nm st =
     (Inl e, st\<lparr>realm := (realm st)\<lparr>trace := trace (realm st) @
        [Objects nm, BeginTransaction, Delete h, CancelTransaction]\<rparr>\<rparr>)"
proof -
  let ?st1 = "st\<lparr>realm := (realm st)\<lparr>trace := trace (realm st) @ [Objects nm]\<rparr>\<rparr>"
  from assms(2) have "eng_delete eng (db (realm ?st1)) h = Inl e" by simp
  from write_delete_fails [OF this] assms(1) show ?thesis
    by (simp add: removeAll_of_def objects_call)
qed

lemma removeAll_of_deleted:
  assumes "eng_objects eng (db (realm st)) nm = Inr (Results h)"
    and "eng_delete eng (db (realm st)) h = Inr d"
  shows "removeAll_of eng nm st =
     (Inr (), st\<lparr>realm := (realm st)\<lparr>db := d, trace := trace (realm st) @
        [Objects nm, BeginTransaction, Delete h, CommitTransaction]\<rparr>\<rparr>)"
proof -
  let ?st1 = "st\<lparr>realm := (realm st)\<lparr>trace := trace (realm st) @ [Objects nm]\<rparr>\<rparr>"
  from assms(2) have "eng_delete eng (db (realm ?st1)) h = Inr d" by simp
  from write_delete_commits [OF this] assms(1) show ?thesis
    by (simp add: removeAll_of_def objects_call)
qed

lemma removeAll_each_append:
  "removeAll_each eng (pre @ post) st =
     (case removeAll_each eng pre st of
        (Inl e, st1) \<Rightarrow> (Inl e, st1)
      | (Inr u, st1) \<Rightarrow> removeAll_each eng post st1)"
  by (induction pre arbitrary: st) (simp_all split: prod.splits sum.splits)

lemma removeAll_each_run:
  assumes "deletions eng (db (realm st)) steps = Some d'"
  shows "removeAll_each eng (map fst steps) st =
     (Inr (), st\<lparr>realm := (realm st)\<lparr>db := d',
        trace := trace (realm st) @ transactions steps\<rparr>\<rparr>)"
  using assms
proof (induction steps arbitrary: st)
  case Nil
  then show ?case by simp
next
  case (Cons step steps)
  obtain nm l where step: "step = (nm, l)" by (cases step)
  from Cons.prems step have o: "eng_objects eng (db (realm st)) nm = Inr l"
    by (simp split: if_splits)
  show ?case
  proof (cases l)
    case Falsy
    let ?st1 = "st\<lparr>realm := (realm st)\<lparr>trace := trace (realm st) @ [Objects nm]\<rparr>\<rparr>"
    from Cons.prems step o Falsy have "deletions eng (db (realm ?st1)) steps = Some d'"
      by simp
    from Cons.IH [OF this] removeAll_of_falsy [of eng st nm] o Falsy step
    show ?thesis by simp
  next
    case (Results h)
    from Cons.prems step o Results obtain d where
      d: "eng_delete eng (db (realm st)) h = Inr d" and r: "deletions eng d steps = Some d'"
      by (auto split: sum.splits)
    let ?st1 = "st\<lparr>realm := (realm st)\<lparr>db := d, trace := trace (realm st) @
        [Objects nm, BeginTransaction, Delete h, CommitTransaction]\<rparr>\<rparr>"
    from r have "deletions eng (db (realm ?st1)) steps = Some d'" by simp
    from Cons.IH [OF this] removeAll_of_deleted [of eng st nm h d] o Results d step
    show ?thesis by simp
  qed
qed

lemma removeAll_each_stops:
  assumes "deletions eng (db (realm st)) steps = Some d'"
    and "removeAll_of eng nm
           (st\<lparr>realm := (realm st)\<lparr>db := d', trace := trace (realm st) @ transactions steps\<rparr>\<rparr>) =
         (Inl e, st2)"
  shows "removeAll_each eng (map fst steps @ nm # post) st = (Inl e, st2)"
  using removeAll_each_run [OF assms(1)] assms(2) by (simp add: removeAll_each_append)

lemma removeAll_each_lookup_fails:
  assumes "deletions eng (db (realm st)) steps = Some d'" and "eng_objects eng d' nm = Inl e"
  shows "removeAll_each eng (map fst steps @ nm # post) st =
     (Inl e, st\<lparr>realm := (realm st)\<lparr>db := d',
        trace := trace (realm st) @ transactions steps @ [Objects nm]\<rparr>\<rparr>)"
proof -
  let ?st1 = "st\<lparr>realm := (realm st)\<lparr>db := d', trace := trace (realm st) @ transactions steps\<rparr>\<rparr>"
  from assms(2) have "eng_objects eng (db (realm ?st1)) nm = Inl e" by simp
  from removeAll_each_stops [OF assms(1), of nm e _ post] removeAll_of_lookup_fails [OF this]
  show ?thesis by simp
qed

lemma removeAll_each_delete_fails:
  assumes "deletions eng (db (realm st)) steps = Some d'"
    and "eng_objects eng d' nm = Inr (Results h)" and "eng_delete eng d' h = Inl e"
  shows "removeAll_each eng (map fst steps @ nm # post) st =
     (Inl e, st\<lparr>realm := (realm st)\<lparr>db := d',
        trace := trace (realm st) @ transactions steps @
          [Objects nm, BeginTransaction, Delete h, CancelTransaction]\<rparr>\<rparr>)"
proof -
  let ?st1 = "st\<lparr>realm := (realm st)\<lparr>db := d', trace := trace (realm st) @ transactions steps\<rparr>\<rparr>"
  from assms(2,3) have "eng_objects eng (db (realm ?st1)) nm = Inr (Results h)"
    and "eng_delete eng (db (realm ?st1)) h = Inl e" by simp_all
  from removeAll_each_stops [OF assms(1), of nm e _ post] removeAll_of_delete_fails [OF this]
  show ?thesis by simp
qed


section \<open>Failures\<close>

lemma createItem_engine_failure:
  assumes "key \<in> set (schemaNames st)" and "eng_create eng (db (realm st)) key v False = Inl e"
  shows "createItem eng key v st =
     catch_block e (st\<lparr>realm := (realm st)\<lparr>trace := trace (realm st) @
       [BeginTransaction, Create key v False, CancelTransaction]\<rparr>\<rparr>)"
  unfolding createItem_def accepted [OF assms(1)]
  using write_create_fails [OF assms(2)] by (simp add: try_catch_def)

lemma updateItem_engine_failure:
  assumes "key \<in> set (schemaNames st)" and "eng_create eng (db (realm st)) key v True = Inl e"
  shows "updateItem eng key v st =
     catch_block e (st\<lparr>realm := (realm st)\<lparr>trace := trace (realm st) @
       [BeginTransaction, Create key v True, CancelTransaction]\<rparr>\<rparr>)"
  unfolding updateItem_def accepted [OF assms(1)]
  using write_create_fails [OF assms(2)] by (simp add: try_catch_def)

lemma deleteItem_engine_failure:
  assumes "eng_delete eng (db (realm st)) item = Inl e"
  shows "deleteItem eng item st =
     catch_block e (st\<lparr>realm := (realm st)\<lparr>trace := trace (realm st) @
       [BeginTransaction, Delete item, CancelTransaction]\<rparr>\<rparr>)"
  unfolding deleteItem_def
  using write_delete_fails [OF assms] by (simp add: try_catch_def)

lemma getItems_lookup_failure:
  assumes "key \<in> set (schemaNames st)" and "eng_objects eng (db (realm st)) key = Inl e"
  shows "getItems eng key flt st =
     catch_block e (st\<lparr>realm := (realm st)\<lparr>trace := trace (realm st) @ [Objects key]\<rparr>\<rparr>)"
  unfolding getItems_def accepted [OF assms(1)]
  using assms(2) by (simp add: try_catch_def objects_call)

lemma truthy_filter: "f \<noteq> FString '''' \<Longrightarrow> \<not> falsy_filter (Some f)"
  by (cases f) (auto simp: falsy_filter_def)

lemma getItems_falsy_lookup:
  assumes "key \<in> set (schemaNames st)" and "f \<noteq> FString ''''"
    and "eng_objects eng (db (realm st)) key = Inr Falsy"
  shows "getItems eng key (Some f) st =
     catch_block (eng_type_error eng)
       (st\<lparr>realm := (realm st)\<lparr>trace := trace (realm st) @ [Objects key]\<rparr>\<rparr>)"
  unfolding getItems_def accepted [OF assms(1)]
  using assms(3) truthy_filter [OF assms(2)] by (simp add: try_catch_def objects_call)

lemma getItems_filter_failure:
  assumes "key \<in> set (schemaNames st)" and "f \<noteq> FString ''''"
    and "eng_objects eng (db (realm st)) key = Inr (Results h)"
    and "eng_filtered eng (db (realm st)) h (convertFilter f) = Inl e"
  shows "getItems eng key (Some f) st =
     catch_block e (st\<lparr>realm := (realm st)\<lparr>trace := trace (realm st) @
       [Objects key, Filtered h (convertFilter f)]\<rparr>\<rparr>)"
  unfolding getItems_def accepted [OF assms(1)]
  using assms(3,4) truthy_filter [OF assms(2)]
  by (simp add: try_catch_def objects_call filtered_call)

lemma removeAll_lookup_failure:
  assumes "key \<in> set (schemaNames st)" and "key \<noteq> ''''"
    and "eng_objects eng (db (realm st)) key = Inl e"
  shows "removeAll_storage eng (Some key) st =
     catch_block e (st\<lparr>realm := (realm st)\<lparr>trace := trace (realm st) @ [Objects key]\<rparr>\<rparr>)"
  unfolding removeAll_truthy [OF assms(2)] accepted [OF assms(1)]
  using removeAll_of_lookup_fails [OF assms(3)] by (simp add: try_catch_def)

lemma removeAll_delete_failure:
  assumes "key \<in> set (schemaNames st)" and "key \<noteq> ''''"
    and "eng_objects eng (db (realm st)) key = Inr (Results h)"
    and "eng_delete eng (db (realm st)) h = Inl e"
  shows "removeAll_storage eng (Some key) st =
     catch_block e (st\<lparr>realm := (realm st)\<lparr>trace := trace (realm st) @
       [Objects key, BeginTransaction, Delete h, CancelTransaction]\<rparr>\<rparr>)"
  unfolding removeAll_truthy [OF assms(2)] accepted [OF assms(1)]
  using removeAll_of_delete_fails [OF assms(3,4)] by (simp add: try_catch_def)

lemma falsy_key: "rkey = None \<or> rkey = Some '''' \<Longrightarrow> \<not> truthy_key rkey"
  by (auto simp: truthy_key_def)

lemma removeAll_loop_lookup_failure:
  assumes "rkey = None \<or> rkey = Some ''''" and "schemaNames st = map fst steps @ nm # post"
    and "deletions eng (db (realm st)) steps = Some d'" and "eng_objects eng d' nm = Inl e"
  shows "removeAll_storage eng rkey st =
     catch_block e (st\<lparr>realm := (realm st)\<lparr>db := d',
       trace := trace (realm st) @ transactions steps @ [Objects nm]\<rparr>\<rparr>)"
  unfolding removeAll_falsy [OF falsy_key [OF assms(1)]] assms(2)
  using removeAll_each_lookup_fails [OF assms(3,4), of post] by (simp add: try_catch_def)

lemma removeAll_loop_delete_failure:
  assumes "rkey = None \<or> rkey = Some ''''" and "schemaNames st = map fst steps @ nm # post"
    and "deletions eng (db (realm st)) steps = Some d'"
    and "eng_objects eng d' nm = Inr (Results h)" and "eng_delete eng d' h = Inl e"
  shows "removeAll_storage eng rkey st =
     catch_block e (st\<lparr>realm := (realm st)\<lparr>db := d',
       trace := trace (realm st) @ transactions steps @
         [Objects nm, BeginTransaction, Delete h, CancelTransaction]\<rparr>\<rparr>)"
  unfolding removeAll_falsy [OF falsy_key [OF assms(1)]] assms(2)
  using removeAll_each_delete_fails [OF assms(3,4,5), of post] by (simp add: try_catch_def)

lemma createItem_failure:
  assumes "createItem eng key v st = (Inl err, st')"
  shows "\<exists>e r. createItem eng key v st = catch_block e (st\<lparr>realm := r\<rparr>)"
  using try_catch_failure [OF assms [unfolded createItem_def] checked_frame, OF with_realm_frame]
  unfolding createItem_def by blast

lemma updateItem_failure:
  assumes "updateItem eng key v st = (Inl err, st')"
  shows "\<exists>e r. updateItem eng key v st = catch_block e (st\<lparr>realm := r\<rparr>)"
  using try_catch_failure [OF assms [unfolded updateItem_def] checked_frame, OF with_realm_frame]
  unfolding updateItem_def by blast

lemma deleteItem_failure:
  assumes "deleteItem eng item st = (Inl err, st')"
  shows "\<exists>e r. deleteItem eng item st = catch_block e (st\<lparr>realm := r\<rparr>)"
  using try_catch_failure [OF assms [unfolded deleteItem_def] with_realm_frame]
  unfolding deleteItem_def by blast

lemma getItems_failure:
  assumes "getItems eng key flt st = (Inl err, st')"
  shows "\<exists>e r. getItems eng key flt st = catch_block e (st\<lparr>realm := r\<rparr>)"
  using try_catch_failure [OF assms [unfolded getItems_def] checked_frame, OF getItems_body_frame]
  unfolding getItems_def by blast

lemma removeAll_failure:
  assumes "removeAll_storage eng rkey st = (Inl err, st')"
  shows "\<exists>e r. removeAll_storage eng rkey st = catch_block e (st\<lparr>realm := r\<rparr>)"
  using try_catch_failure [OF assms [unfolded removeAll_storage_def] removeAll_body_frame]
  unfolding removeAll_storage_def by blast

lemma suffix_error_toString: "suffix (err_message e) (error_toString e)"
  by (simp add: error_toString_def suffix_def)

lemma catch_block_notifies:
  "snd (catch_block e st) =
     st\<lparr>sink := sink st @
       (case errorCallback st of
          Some cb \<Rightarrow> [CallbackCall cb e]
        | None \<Rightarrow>
            [ConsoleErrorText ''-------- ERROR CALLBACK NOT DEFINED ON STORAGE CLASS --------'',
             ConsoleErrorValue e])\<rparr>"
  by (simp add: catch_block_state onUncaught_state)

lemma callback_returns:
  "(errorCallback st = None \<or> (\<exists>cb. errorCallback st = Some cb \<and> cb_throws cb e = None)) \<Longrightarrow>
   fst (onUncaught e st) = Inr ()"
  by (auto simp: onUncaught_result)


text \<open>
  Claim C2, as amended. Every failure raised during \<open>createItem\<close>, \<open>updateItem\<close>,
  \<open>deleteItem\<close>, \<open>getItems\<close> or \<open>removeAll\<close> (the schema error of an unregistered name, an
  error thrown by the engine, the \<open>TypeError\<close> of a filter applied to a falsy lookup)
  reaches the catch block of the operation as it was raised, and an operation fails in
  no other way. The catch block first hands the error to the error sink: to the
  configured callback, or to the console when there is none. When the callback returns
  normally, or there is none, the operation then throws a new plain \<open>Error\<close> whose
  message is the string conversion of the error raised, which ends with its message,
  whatever kind of error it was. The claim as written promises this of every failure;
  an error callback that throws leaves the catch block with its own error instead.
\<close>

theorem failures_notified_then_rethrown:
  "snd (catch_block e st) =
     st\<lparr>sink := sink st @
       (case errorCallback st of
          Some cb \<Rightarrow> [CallbackCall cb e]
        | None \<Rightarrow>
            [ConsoleErrorText ''-------- ERROR CALLBACK NOT DEFINED ON STORAGE CLASS --------'',
             ConsoleErrorValue e])\<rparr> \<and>
   ((errorCallback st = None \<or> (\<exists>cb. errorCallback st = Some cb \<and> cb_throws cb e = None)) \<longrightarrow>
      fst (catch_block e st) = Inl (JsError ''Error'' (error_toString e))) \<and>
   suffix (err_message e) (error_toString e) \<and>
   (createItem eng key v st = (Inl err, st') \<longrightarrow>
      (\<exists>e r. createItem eng key v st = catch_block e (st\<lparr>realm := r\<rparr>))) \<and>
   (updateItem eng key v st = (Inl err, st') \<longrightarrow>
      (\<exists>e r. updateItem eng key v st = catch_block e (st\<lparr>realm := r\<rparr>))) \<and>
   (deleteItem eng item st = (Inl err, st') \<longrightarrow>
      (\<exists>e r. deleteItem eng item st = catch_block e (st\<lparr>realm := r\<rparr>))) \<and>
   (getItems eng key flt st = (Inl err, st') \<longrightarrow>
      (\<exists>e r. getItems eng key flt st = catch_block e (st\<lparr>realm := r\<rparr>))) \<and>
   (removeAll_storage eng rkey st = (Inl err, st') \<longrightarrow>
      (\<exists>e r. removeAll_storage eng rkey st = catch_block e (st\<lparr>realm := r\<rparr>))) \<and>
   (key \<notin> set (schemaNames st) \<longrightarrow>
      createItem eng key v st =
        catch_block (JsError ''Error'' (''Schema for '' @ key @ '' it's not defined.'')) st) \<and>
   (key \<in> set (schemaNames st) \<and> eng_create eng (db (realm st)) key v False = Inl e \<longrightarrow>
      createItem eng key v st =
        catch_block e (st\<lparr>realm := (realm st)\<lparr>trace := trace (realm st) @
          [BeginTransaction, Create key v False, CancelTransaction]\<rparr>\<rparr>)) \<and>
   (key \<notin> set (schemaNames st) \<longrightarrow>
      updateItem eng key v st =
        catch_block (JsError ''Error'' (''Schema for '' @ key @ '' it's not defined.'')) st) \<and>
   (key \<in> set (schemaNames st) \<and> eng_create eng (db (realm st)) key v True = Inl e \<longrightarrow>
      updateItem eng key v st =
        catch_block e (st\<lparr>realm := (realm st)\<lparr>trace := trace (realm st) @
          [BeginTransaction, Create key v True, CancelTransaction]\<rparr>\<rparr>)) \<and>
   (eng_delete eng (db (realm st)) item = Inl e \<longrightarrow>
      deleteItem eng item st =
        catch_block e (st\<lparr>realm := (realm st)\<lparr>trace := trace (realm st) @
          [BeginTransaction, Delete item, CancelTransaction]\<rparr>\<rparr>)) \<and>
   (key \<notin> set (schemaNames st) \<longrightarrow>
      getItems eng key flt st =
        catch_block (JsError ''Error'' (''Schema for '' @ key @ '' it's not defined.'')) st) \<and>
   (key \<in> set (schemaNames st) \<and> eng_objects eng (db (realm st)) key = Inl e \<longrightarrow>
      getItems eng key flt st =
        catch_block e (st\<lparr>realm := (realm st)\<lparr>trace := trace (realm st) @ [Objects key]\<rparr>\<rparr>)) \<and>
   (key \<in> set (schemaNames st) \<and> f \<noteq> FString '''' \<and>
    eng_objects eng (db (realm st)) key = Inr Falsy \<longrightarrow>
      getItems eng key (Some f) st =
        catch_block (eng_type_error eng)
          (st\<lparr>realm := (realm st)\<lparr>trace := trace (realm st) @ [Objects key]\<rparr>\<rparr>)) \<and>
   (key \<in> set (schemaNames st) \<and> f \<noteq> FString '''' \<and>
    eng_objects eng (db (realm st)) key = Inr (Results h) \<and>
    eng_filtered eng (db (realm st)) h (convertFilter f) = Inl e \<longrightarrow>
      getItems eng key (Some f) st =
        catch_block e (st\<lparr>realm := (realm st)\<lparr>trace := trace (realm st) @
          [Objects key, Filtered h (convertFilter f)]\<rparr>\<rparr>)) \<and>
   (key \<notin> set (schemaNames st) \<and> key \<noteq> '''' \<longrightarrow>
      removeAll_storage eng (Some key) st =
        catch_block (JsError ''Error'' (''Schema for '' @ key @ '' it's not defined.'')) st) \<and>
   (key \<in> set (schemaNames st) \<and> key \<noteq> '''' \<and>
    eng_objects eng (db (realm st)) key = Inl e \<longrightarrow>
      removeAll_storage eng (Some key) st =
        catch_block e (st\<lparr>realm := (realm st)\<lparr>trace := trace (realm st) @ [Objects key]\<rparr>\<rparr>)) \<and>
   (key \<in> set (schemaNames st) \<and> key \<noteq> '''' \<and>
    eng_objects eng (db (realm st)) key = Inr (Results h) \<and>
    eng_delete eng (db (realm st)) h = Inl e \<longrightarrow>
      removeAll_storage eng (Some key) st =
        catch_block e (st\<lparr>realm := (realm st)\<lparr>trace := trace (realm st) @
          [Objects key, BeginTransaction, Delete h, CancelTransaction]\<rparr>\<rparr>)) \<and>
   ((rkey = None \<or> rkey = Some '''') \<and> schemaNames st = map fst steps @ nm # post \<and>
    deletions eng (db (realm st)) steps = Some d' \<and> eng_objects eng d' nm = Inl e \<longrightarrow>
      removeAll_storage eng rkey st =
        catch_block e (st\<lparr>realm := (realm st)\<lparr>db := d',
          trace := trace (realm st) @ transactions steps @ [Objects nm]\<rparr>\<rparr>)) \<and>
   ((rkey = None \<or> rkey = Some '''') \<and> schemaNames st = map fst steps @ nm # post \<and>
    deletions eng (db (realm st)) steps = Some d' \<and>
    eng_objects eng d' nm = Inr (Results h) \<and> eng_delete eng d' h = Inl e \<longrightarrow>
      removeAll_storage eng rkey st =
        catch_block e (st\<lparr>realm := (realm st)\<lparr>db := d',
          trace := trace (realm st) @ transactions steps @
            [Objects nm, BeginTransaction, Delete h, CancelTransaction]\<rparr>\<rparr>))"
proof -
  have k1: "snd (catch_block e st) =
     st\<lparr>sink := sink st @
       (case errorCallback st of
          Some cb \<Rightarrow> [CallbackCall cb e]
        | None \<Rightarrow>
            [ConsoleErrorText ''-------- ERROR CALLBACK NOT DEFINED ON STORAGE CLASS --------'',
             ConsoleErrorValue e])\<rparr>"
    for st :: "('a, 'b) storage"
    by (rule catch_block_notifies)
  have k2: "fst (catch_block e st) = Inl (JsError ''Error'' (error_toString e))"
    if "errorCallback st = None \<or> (\<exists>cb. errorCallback st = Some cb \<and> cb_throws cb e = None)"
    by (simp add: catch_block_error callback_returns [OF that] new_Error_of_def new_Error_def)
  have c0: "createItem eng key v st =
        catch_block (JsError ''Error'' (''Schema for '' @ key @ '' it's not defined.'')) st"
    and u0: "updateItem eng key v st =
        catch_block (JsError ''Error'' (''Schema for '' @ key @ '' it's not defined.'')) st"
    and g0: "getItems eng key flt st =
        catch_block (JsError ''Error'' (''Schema for '' @ key @ '' it's not defined.'')) st"
    if "key \<notin> set (schemaNames st)"
    unfolding createItem_def updateItem_def getItems_def by (rule rejected [OF that])+
  have r0: "removeAll_storage eng (Some key) st =
        catch_block (JsError ''Error'' (''Schema for '' @ key @ '' it's not defined.'')) st"
    if "key \<notin> set (schemaNames st) \<and> key \<noteq> ''''"
    using that unfolding removeAll_truthy [OF conjunct2 [OF that]] by (intro rejected) simp
  show ?thesis
    apply (intro conjI impI)
    apply (rule k1)
    apply (erule k2)
    apply (rule suffix_error_toString)
    apply (erule createItem_failure)
    apply (erule updateItem_failure)
    apply (erule deleteItem_failure)
    apply (erule getItems_failure)
    apply (erule removeAll_failure)
    apply (erule c0)
    apply (elim conjE, erule (1) createItem_engine_failure)
    apply (erule u0)
    apply (elim conjE, erule (1) updateItem_engine_failure)
    apply (erule deleteItem_engine_failure)
    apply (erule g0)
    apply (elim conjE, erule (1) getItems_lookup_failure)
    apply (elim conjE, erule (2) getItems_falsy_lookup)
    apply (elim conjE, erule (3) getItems_filter_failure)
    apply (erule r0)
    apply (elim conjE, erule (2) removeAll_lookup_failure)
    apply (elim conjE, erule (3) removeAll_delete_failure)
    apply (elim conjE, erule (3) removeAll_loop_lookup_failure)
    apply (elim conjE, erule (4) removeAll_loop_delete_failure)
    done
qed


theorem failures_notified_then_rethrown_witness:
  "''Task'' \<notin> set (schemaNames example_reporting) \<and>
   errorCallback example_reporting = Some (Callback ''report'' (\<lambda>error. None)) \<and>
   createItem (ref_engine []) ''Task'' [(''id'', JNum 1)] example_reporting =
     (Inl (JsError ''Error'' ''Error: Schema for Task it's not defined.''),
      example_reporting\<lparr>sink :=
        [CallbackCall (Callback ''report'' (\<lambda>error. None))
           (JsError ''Error'' ''Schema for Task it's not defined.'')]\<rparr>) \<and>
   errorCallback example_populated = None \<and>
   eng_delete (ref_engine [''User'']) (db (realm example_populated)) (RResults ''User'') =
     Inl (JsError ''Error'' ''Cannot delete from User'') \<and>
   deleteItem (ref_engine [''User'']) (RResults ''User'') example_populated =
     (Inl (JsError ''Error'' ''Error: Cannot delete from User''),
      example_populated
        \<lparr>realm := (realm example_populated)
           \<lparr>trace := [BeginTransaction, Delete (RResults ''User''), CancelTransaction]\<rparr>,
         sink :=
           [ConsoleErrorText ''-------- ERROR CALLBACK NOT DEFINED ON STORAGE CLASS --------'',
            ConsoleErrorValue (JsError ''Error'' ''Cannot delete from User'')]\<rparr>)"
proof -
  let ?E = "JsError ''Error'' (''Schema for '' @ ''Task'' @ '' it's not defined.'')"
  let ?D = "JsError ''Error'' ''Cannot delete from User''"
  let ?st1 = "example_populated\<lparr>realm := (realm example_populated)
      \<lparr>trace := trace (realm example_populated) @
         [BeginTransaction, Delete (RResults ''User''), CancelTransaction]\<rparr>\<rparr>"
  have n: "''Task'' \<notin> set (schemaNames example_reporting)"
    and cb: "errorCallback example_reporting = Some (Callback ''report'' (\<lambda>error. None))"
    and no: "errorCallback example_populated = None"
    and no1: "errorCallback ?st1 = None"
    and d: "eng_delete (ref_engine [''User'']) (db (realm example_populated)) (RResults ''User'') =
       Inl ?D"
    by (simp_all add: example_reporting_def example_defs)
  from cb have r: "errorCallback example_reporting = None \<or>
      (\<exists>cb. errorCallback example_reporting = Some cb \<and> cb_throws cb ?E = None)"
    by simp
  from no1 have r1: "errorCallback ?st1 = None \<or>
      (\<exists>cb. errorCallback ?st1 = Some cb \<and> cb_throws cb ?D = None)"
    by (rule disjI1)
  note T = failures_notified_then_rethrown [where st = example_reporting and e = ?E
    and key = "''Task''" and eng = "ref_engine []" and v = "[(''id'', JNum 1)]"]
  note T1 = failures_notified_then_rethrown [where st = ?st1 and e = ?D]
  note T2 = failures_notified_then_rethrown [where st = example_populated and e = ?D
    and eng = "ref_engine [''User'']" and item = "RResults ''User''"]
  note c = T [THEN conjunct2, THEN conjunct2, THEN conjunct2, THEN conjunct2, THEN conjunct2,
    THEN conjunct2, THEN conjunct2, THEN conjunct2, THEN conjunct1, THEN mp, OF n]
  note del = T2 [THEN conjunct2, THEN conjunct2, THEN conjunct2, THEN conjunct2,
    THEN conjunct2, THEN conjunct2, THEN conjunct2, THEN conjunct2, THEN conjunct2,
    THEN conjunct2, THEN conjunct2, THEN conjunct2, THEN conjunct1, THEN mp, OF d]
  have 1: "createItem (ref_engine []) ''Task'' [(''id'', JNum 1)] example_reporting =
     (Inl (JsError ''Error'' ''Error: Schema for Task it's not defined.''),
      example_reporting\<lparr>sink :=
        [CallbackCall (Callback ''report'' (\<lambda>error. None))
           (JsError ''Error'' ''Schema for Task it's not defined.'')]\<rparr>)"
    unfolding c prod_eq_iff fst_conv snd_conv
      T [THEN conjunct1] T [THEN conjunct2, THEN conjunct1, THEN mp, OF r]
    by (simp add: error_toString_def example_reporting_def example_defs)
  have 2: "deleteItem (ref_engine [''User'']) (RResults ''User'') example_populated =
     (Inl (JsError ''Error'' ''Error: Cannot delete from User''),
      example_populated
        \<lparr>realm := (realm example_populated)
           \<lparr>trace := [BeginTransaction, Delete (RResults ''User''), CancelTransaction]\<rparr>,
         sink :=
           [ConsoleErrorText ''-------- ERROR CALLBACK NOT DEFINED ON STORAGE CLASS --------'',
            ConsoleErrorValue (JsError ''Error'' ''Cannot delete from User'')]\<rparr>)"
    unfolding del prod_eq_iff fst_conv snd_conv
      T1 [THEN conjunct1] T1 [THEN conjunct2, THEN conjunct1, THEN mp, OF r1]
    by (simp add: error_toString_def example_defs)
  from n cb no d 1 2 show ?thesis by simp
qed

theorem throwing_callback_counterexample:
  "''Task'' \<notin> set (schemaNames example_throwing) \<and>
   createItem (ref_engine []) ''Task'' [(''id'', JNum 1)] example_throwing =
     (Inl (JsError ''RangeError'' ''report failed''),
      example_throwing\<lparr>sink :=
        [CallbackCall
           (Callback ''report'' (\<lambda>error. Some (JsError ''RangeError'' ''report failed'')))
           (JsError ''Error'' ''Schema for Task it's not defined.'')]\<rparr>) \<and>
   \<not> suffix ''Schema for Task it's not defined.'' ''report failed'' \<and>
   eng_delete (ref_engine [''User'']) (db (realm example_throwing)) (RResults ''User'') =
     Inl (JsError ''Error'' ''Cannot delete from User'') \<and>
   fst (deleteItem (ref_engine [''User'']) (RResults ''User'') example_throwing) =
     Inl (JsError ''RangeError'' ''report failed'') \<and>
   \<not> suffix ''Cannot delete from User'' ''report failed''"
proof -
  have s: "\<not> suffix ''Schema for Task it's not defined.'' ''report failed''"
    "\<not> suffix ''Cannot delete from User'' ''report failed''"
    by (auto dest: suffix_length_le)
  have "''Task'' \<notin> set (schemaNames example_throwing)"
    and "createItem (ref_engine []) ''Task'' [(''id'', JNum 1)] example_throwing =
     (Inl (JsError ''RangeError'' ''report failed''),
      example_throwing\<lparr>sink :=
        [CallbackCall
           (Callback ''report'' (\<lambda>error. Some (JsError ''RangeError'' ''report failed'')))
           (JsError ''Error'' ''Schema for Task it's not defined.'')]\<rparr>)"
    and "eng_delete (ref_engine [''User'']) (db (realm example_throwing)) (RResults ''User'') =
     Inl (JsError ''Error'' ''Cannot delete from User'')"
    and "fst (deleteItem (ref_engine [''User'']) (RResults ''User'') example_throwing) =
     Inl (JsError ''RangeError'' ''report failed'')"
    by (simp_all add: createItem_def deleteItem_def call_defs example_throwing_def example_defs)
  with s show ?thesis by blast
qed


section \<open>Deleting everything\<close>

lemma ref_removeAll_of:
  assumes "nm \<in> set (map name (ref_schema (db (realm st))))" and "nm \<notin> set locked"
  shows "removeAll_of (ref_engine locked) nm st =
     (Inr (),
      st\<lparr>realm := (realm st)
         \<lparr>db := (db (realm st))\<lparr>rows := filter (\<lambda>row. fst row \<noteq> nm) (rows (db (realm st)))\<rparr>,
          trace := trace (realm st) @
            [Objects nm, BeginTransaction, Delete (RResults nm), CommitTransaction]\<rparr>\<rparr>)"
  using assms
  by (simp add: removeAll_of_def with_realm_def realm_objects_def realm_write_def
      realm_delete_def ref_engine_def ref_objects_def ref_delete_def)

lemma ref_removeAll_each:
  assumes "set nms \<subseteq> set (map name (ref_schema (db (realm st))))"
    and "set nms \<inter> set locked = {}"
  shows "fst (removeAll_each (ref_engine locked) nms st) = Inr () \<and>
         rows (db (realm (snd (removeAll_each (ref_engine locked) nms st)))) =
           filter (\<lambda>row. fst row \<notin> set nms) (rows (db (realm st)))"
  using assms
proof (induction nms arbitrary: st)
  case Nil
  then show ?case by simp
next
  case (Cons nm nms)
  let ?st1 = "st\<lparr>realm := (realm st)
         \<lparr>db := (db (realm st))\<lparr>rows := filter (\<lambda>row. fst row \<noteq> nm) (rows (db (realm st)))\<rparr>,
          trace := trace (realm st) @
            [Objects nm, BeginTransaction, Delete (RResults nm), CommitTransaction]\<rparr>\<rparr>"
  from Cons.prems have a: "removeAll_of (ref_engine locked) nm st = (Inr (), ?st1)"
    by (intro ref_removeAll_of) auto
  from Cons.prems have "set nms \<subseteq> set (map name (ref_schema (db (realm ?st1))))"
    and "set nms \<inter> set locked = {}" by auto
  from Cons.IH [OF this] a show ?case
    by (simp add: conj_commute)
qed

text \<open>
  Claim C10. \<open>removeAll\<close> called with a falsy name such as the empty string takes the
  branch that deletes everything: it behaves as \<open>removeAll\<close> without an argument, the
  loop over the registered names, and the argument is not checked against the schema
  set. With the reference engine (none of whose deletions fails) the records of every
  registered type are gone afterwards.
\<close>

theorem removeAll_falsy_key:
  "removeAll_storage eng (Some '''') st = removeAll_storage eng None st \<and>
   removeAll_storage eng (Some '''') st = try_catch (removeAll_each eng (schemaNames st)) st \<and>
   (set (schemaNames st) \<subseteq> set (map name (ref_schema (db (realm st)))) \<longrightarrow>
      fst (removeAll_storage (ref_engine []) (Some '''') st) = Inr () \<and>
      rows (db (realm (snd (removeAll_storage (ref_engine []) (Some '''') st)))) =
        filter (\<lambda>row. fst row \<notin> set (schemaNames st)) (rows (db (realm st))))"
proof (intro conjI impI)
  have f: "\<not> truthy_key (Some '''')" "\<not> truthy_key None"
    by (simp_all add: truthy_key_def)
  show "removeAll_storage eng (Some '''') st = removeAll_storage eng None st"
    by (simp only: removeAll_falsy [OF f(1)] removeAll_falsy [OF f(2)])
  show "removeAll_storage eng (Some '''') st = try_catch (removeAll_each eng (schemaNames st)) st"
    by (rule removeAll_falsy [OF f(1)])
  assume s: "set (schemaNames st) \<subseteq> set (map name (ref_schema (db (realm st))))"
  from ref_removeAll_each [OF s, of "[]"]
  have e: "fst (removeAll_each (ref_engine []) (schemaNames st) st) = Inr ()"
    "rows (db (realm (snd (removeAll_each (ref_engine []) (schemaNames st) st)))) =
        filter (\<lambda>row. fst row \<notin> set (schemaNames st)) (rows (db (realm st)))"
    by simp_all
  obtain st1 where st1: "removeAll_each (ref_engine []) (schemaNames st) st = (Inr (), st1)"
    using e(1) by (cases "removeAll_each (ref_engine []) (schemaNames st) st") simp
  from st1 show "fst (removeAll_storage (ref_engine []) (Some '''') st) = Inr ()"
    by (simp add: removeAll_falsy [OF f(1)] try_catch_def)
  from st1 e(2) show "rows (db (realm (snd (removeAll_storage (ref_engine []) (Some '''') st)))) =
        filter (\<lambda>row. fst row \<notin> set (schemaNames st)) (rows (db (realm st)))"
    by (simp add: removeAll_falsy [OF f(1)] try_catch_def)
qed

theorem removeAll_falsy_key_witness:
  "set (schemaNames example_populated) \<subseteq>
     set (map name (ref_schema (db (realm example_populated)))) \<and>
   '''' \<notin> set (schemaNames example_populated) \<and>
   rows (db (realm example_populated)) =
     [(''User'', [(''id'', JNum 1), (''name'', JStr ''Ann'')]),
      (''Note'', [(''text'', JStr ''hi'')])] \<and>
   fst (removeAll_storage (ref_engine []) (Some '''') example_populated) = Inr () \<and>
   rows (db (realm (snd (removeAll_storage (ref_engine []) (Some '''') example_populated)))) = []"
proof -
  have s: "set (schemaNames example_populated) \<subseteq>
     set (map name (ref_schema (db (realm example_populated))))"
    by (simp add: example_defs)
  have r: "filter (\<lambda>row. fst row \<notin> set (schemaNames example_populated))
             (rows (db (realm example_populated))) = []"
    by (simp add: example_defs)
  from removeAll_falsy_key [of "ref_engine []" example_populated] s
  have "fst (removeAll_storage (ref_engine []) (Some '''') example_populated) = Inr () \<and>
    rows (db (realm (snd (removeAll_storage (ref_engine []) (Some '''') example_populated)))) =
      filter (\<lambda>row. fst row \<notin> set (schemaNames example_populated))
             (rows (db (realm example_populated)))"
    by blast
  with r have "fst (removeAll_storage (ref_engine []) (Some '''') example_populated) = Inr () \<and>
    rows (db (realm (snd (removeAll_storage (ref_engine []) (Some '''') example_populated)))) = []"
    by (simp only:)
  with s show ?thesis by (simp add: example_defs)
qed

section \<open>Queries\<close>

lemma getItems_plain:
  assumes "key \<in> set (schemaNames st)" and "falsy_filter flt"
  shows "(case eng_objects eng (db (realm st)) key of
            Inl e \<Rightarrow> \<exists>err. fst (getItems eng key flt st) = Inl err
          | Inr Falsy \<Rightarrow> fst (getItems eng key flt st) = Inr None
          | Inr (Results h) \<Rightarrow> fst (getItems eng key flt st) = Inr (Some h))"
  unfolding getItems_def accepted [OF assms(1)]
  using assms(2)
  by (simp add: try_catch_def objects_call catch_block_error split: sum.splits lookup.splits)

lemma getItems_filtered:
  assumes "key \<in> set (schemaNames st)" and "\<not> falsy_filter (Some f)"
  shows "(case eng_objects eng (db (realm st)) key of
            Inl e \<Rightarrow> \<exists>err. fst (getItems eng key (Some f) st) = Inl err
          | Inr Falsy \<Rightarrow> \<exists>err. fst (getItems eng key (Some f) st) = Inl err
          | Inr (Results h) \<Rightarrow>
              (case eng_filtered eng (db (realm st)) h (convertFilter f) of
                 Inl e \<Rightarrow> \<exists>err. fst (getItems eng key (Some f) st) = Inl err
               | Inr Falsy \<Rightarrow> fst (getItems eng key (Some f) st) = Inr None
               | Inr (Results h') \<Rightarrow> fst (getItems eng key (Some f) st) = Inr (Some h')))"
  unfolding getItems_def accepted [OF assms(1)]
  using assms(2)
  by (simp add: try_catch_def objects_call filtered_call catch_block_error
      split: sum.splits lookup.splits)

text \<open>
  Claim C6, as amended. For a registered type name, \<open>getItems\<close> without a filter, or
  with the empty string as the filter, returns the full record set the engine hands
  back for that type; with any other filter it returns the view the engine gives
  for the query \<open>convertFilter filter\<close>; and it returns \<open>null\<close> exactly when the result of
  that lookup is falsy. The claim as written lets every given filter select a filtered
  view, which the guard \<^verbatim>\<open>if (!filter)\<close> does not do for the empty string.
\<close>

theorem getItems_full_or_filtered:
  assumes "key \<in> set (schemaNames st)"
  shows
    "((flt = None \<or> flt = Some (FString '''')) \<and>
      eng_objects eng (db (realm st)) key = Inr (Results h) \<longrightarrow>
        fst (getItems eng key flt st) = Inr (Some h)) \<and>
     (f \<noteq> FString '''' \<and>
      eng_objects eng (db (realm st)) key = Inr (Results h) \<and>
      eng_filtered eng (db (realm st)) h (convertFilter f) = Inr (Results h') \<longrightarrow>
        fst (getItems eng key (Some f) st) = Inr (Some h')) \<and>
     ((flt = None \<or> flt = Some (FString '''')) \<longrightarrow>
        (fst (getItems eng key flt st) = Inr None \<longleftrightarrow>
         eng_objects eng (db (realm st)) key = Inr Falsy)) \<and>
     (f \<noteq> FString '''' \<longrightarrow>
        (fst (getItems eng key (Some f) st) = Inr None \<longleftrightarrow>
         (\<exists>h. eng_objects eng (db (realm st)) key = Inr (Results h) \<and>
              eng_filtered eng (db (realm st)) h (convertFilter f) = Inr Falsy)))"
proof -
  have p: "falsy_filter flt" if "flt = None \<or> flt = Some (FString '''')"
    using that by (auto simp: falsy_filter_def)
  have q: "\<not> falsy_filter (Some f)" if "f \<noteq> FString ''''"
    using that by (cases f) (auto simp: falsy_filter_def)
  show ?thesis
  proof (intro conjI impI)
    assume a: "(flt = None \<or> flt = Some (FString '''')) \<and>
      eng_objects eng (db (realm st)) key = Inr (Results h)"
    then have "falsy_filter flt" using p by blast
    from getItems_plain [OF assms this, of eng] a show "fst (getItems eng key flt st) = Inr (Some h)"
      by simp
  next
    assume a: "f \<noteq> FString '''' \<and>
      eng_objects eng (db (realm st)) key = Inr (Results h) \<and>
      eng_filtered eng (db (realm st)) h (convertFilter f) = Inr (Results h')"
    then have "\<not> falsy_filter (Some f)" using q by blast
    from getItems_filtered [OF assms this, of eng] a
    show "fst (getItems eng key (Some f) st) = Inr (Some h')"
      by simp
  next
    assume a: "flt = None \<or> flt = Some (FString '''')"
    from getItems_plain [OF assms p [OF a], of eng]
    show "fst (getItems eng key flt st) = Inr None \<longleftrightarrow>
         eng_objects eng (db (realm st)) key = Inr Falsy"
      by (auto split: sum.splits lookup.splits)
  next
    assume a: "f \<noteq> FString ''''"
    note G = getItems_filtered [OF assms q [OF a], of eng]
    show "fst (getItems eng key (Some f) st) = Inr None \<longleftrightarrow>
         (\<exists>h. eng_objects eng (db (realm st)) key = Inr (Results h) \<and>
              eng_filtered eng (db (realm st)) h (convertFilter f) = Inr Falsy)"
    proof (cases "eng_objects eng (db (realm st)) key")
      case (Inl e)
      with G show ?thesis by auto
    next
      case (Inr l)
      show ?thesis
      proof (cases l)
        case Falsy
        with Inr G show ?thesis by auto
      next
        case (Results h)
        with Inr G show ?thesis
          by (cases "eng_filtered eng (db (realm st)) h (convertFilter f)")
            (auto split: lookup.splits)
      qed
    qed
  qed
qed

theorem getItems_full_or_filtered_witness:
  "''User'' \<in> set (schemaNames example_populated) \<and>
   fst (getItems (ref_engine []) ''User'' None example_populated) =
     Inr (Some (RResults ''User'')) \<and>
   FObject [(''id'', JNum 1)] \<noteq> FString '''' \<and>
   fst (getItems (ref_engine []) ''User'' (Some (FObject [(''id'', JNum 1)])) example_populated) =
     Inr (Some (RFiltered ''User'' ''id = 1''))"
proof -
  have n: "''User'' \<in> set (schemaNames example_populated)"
    by (simp add: example_defs)
  have o: "eng_objects (ref_engine []) (db (realm example_populated)) ''User'' =
      Inr (Results (RResults ''User''))"
    by (simp add: example_defs)
  have c: "convertFilter (FObject [(''id'', JNum 1)]) = ''id = 1''"
    by (simp add: convertFilter_def Object_keys_def prop_get_def string_of_nat.simps digit_def)
  have fl: "eng_filtered (ref_engine []) (db (realm example_populated)) (RResults ''User'')
       (convertFilter (FObject [(''id'', JNum 1)])) = Inr (Results (RFiltered ''User'' ''id = 1''))"
    unfolding c by (simp add: example_defs)
  from getItems_full_or_filtered [OF n, of None "ref_engine []" "RResults ''User''"] o
  have 1: "fst (getItems (ref_engine []) ''User'' None example_populated) =
     Inr (Some (RResults ''User''))"
    by blast
  from getItems_full_or_filtered [OF n, where f = "FObject [(''id'', JNum 1)]"
      and eng = "ref_engine []" and h = "RResults ''User''" and h' = "RFiltered ''User'' ''id = 1''"]
    o fl
  have 2: "fst (getItems (ref_engine []) ''User'' (Some (FObject [(''id'', JNum 1)]))
      example_populated) = Inr (Some (RFiltered ''User'' ''id = 1''))"
    by blast
  from n 1 2 show ?thesis by simp
qed

theorem getItems_empty_string_filter_counterexample:
  "''User'' \<in> set (schemaNames example_populated) \<and>
   eng_objects (ref_engine []) (db (realm example_populated)) ''User'' =
     Inr (Results (RResults ''User'')) \<and>
   eng_filtered (ref_engine []) (db (realm example_populated)) (RResults ''User'')
     (convertFilter (FString '''')) = Inr (Results (RFiltered ''User'' '''')) \<and>
   fst (getItems (ref_engine []) ''User'' (Some (FString '''')) example_populated) =
     Inr (Some (RResults ''User'')) \<and>
   trace (realm (snd (getItems (ref_engine []) ''User'' (Some (FString '''')) example_populated))) =
     [Objects ''User'']"
  by (simp add: getItems_def falsy_filter_def convertFilter_def call_defs example_defs)


section \<open>One transaction for each type\<close>

lemma ref_deletions:
  assumes "set nms \<subseteq> set (map name (ref_schema d))" and "set nms \<inter> set locked = {}"
  shows "deletions (ref_engine locked) d (map (\<lambda>nm. (nm, Results (RResults nm))) nms) =
     Some (d\<lparr>rows := filter (\<lambda>row. fst row \<notin> set nms) (rows d)\<rparr>)"
  using assms
proof (induction nms arbitrary: d)
  case Nil
  then show ?case by simp
next
  case (Cons nm nms)
  let ?d1 = "d\<lparr>rows := filter (\<lambda>row. fst row \<noteq> nm) (rows d)\<rparr>"
  from Cons.prems have o: "eng_objects (ref_engine locked) d nm = Inr (Results (RResults nm))"
    and del: "eng_delete (ref_engine locked) d (RResults nm) = Inr ?d1"
    by (auto simp: ref_engine_def ref_objects_def ref_delete_def)
  from Cons.prems have "set nms \<subseteq> set (map name (ref_schema ?d1))"
    and "set nms \<inter> set locked = {}" by auto
  from Cons.IH [OF this] o del show ?case
    by (simp add: conj_commute)
qed

lemma ref_transactions:
  "transactions (map (\<lambda>nm. (nm, Results (RResults nm))) nms) =
     concat (map (\<lambda>nm. [Objects nm, BeginTransaction, Delete (RResults nm), CommitTransaction])
       nms)"
  by (induction nms) simp_all

lemma removeAll_run:
  assumes "schemaNames st = map fst steps" and "deletions eng (db (realm st)) steps = Some d'"
  shows "removeAll_storage eng None st =
     (Inr (), st\<lparr>realm := (realm st)\<lparr>db := d',
        trace := trace (realm st) @ transactions steps\<rparr>\<rparr>)"
  unfolding removeAll_falsy [OF falsy_key [OF disjI1 [OF refl]]] assms(1)
  using removeAll_each_run [OF assms(2)] by (simp add: try_catch_def)

text \<open>
  Claim C5. \<open>removeAll\<close> without an argument goes through the registered type names in
  their order. When every lookup and deletion succeeds it returns normally, the
  database is the one left by deleting, type after type, the collection looked up for
  it, and the calls made on the instance are, for each type in turn, the lookup and a
  transaction of its own around the one deletion. When the engine fails to delete the
  records of one type, that transaction is cancelled, the operation throws, and the
  database is the one the committed deletions for the types before it left: they are
  not rolled back; the same holds when a lookup fails. With the reference engine this means that the records of the types
  before the failing one are gone and all others are still there, and that without a
  failure the records of every registered type are gone.
\<close>

theorem removeAll_one_transaction_per_type:
  "(schemaNames st = map fst steps \<and> deletions eng (db (realm st)) steps = Some d' \<longrightarrow>
      removeAll_storage eng None st =
        (Inr (), st\<lparr>realm := (realm st)\<lparr>db := d',
           trace := trace (realm st) @ transactions steps\<rparr>\<rparr>)) \<and>
   (schemaNames st = map fst steps @ nm # post \<and>
    deletions eng (db (realm st)) steps = Some d' \<and>
    eng_objects eng d' nm = Inr (Results h) \<and> eng_delete eng d' h = Inl e \<longrightarrow>
      removeAll_storage eng None st =
        catch_block e (st\<lparr>realm := (realm st)\<lparr>db := d',
          trace := trace (realm st) @ transactions steps @
            [Objects nm, BeginTransaction, Delete h, CancelTransaction]\<rparr>\<rparr>) \<and>
      (\<exists>err. fst (removeAll_storage eng None st) = Inl err) \<and>
      realm (snd (removeAll_storage eng None st)) =
        (realm st)\<lparr>db := d',
          trace := trace (realm st) @ transactions steps @
            [Objects nm, BeginTransaction, Delete h, CancelTransaction]\<rparr>) \<and>
   (schemaNames st = map fst steps @ nm # post \<and>
    deletions eng (db (realm st)) steps = Some d' \<and> eng_objects eng d' nm = Inl e \<longrightarrow>
      removeAll_storage eng None st =
        catch_block e (st\<lparr>realm := (realm st)\<lparr>db := d',
          trace := trace (realm st) @ transactions steps @ [Objects nm]\<rparr>\<rparr>)) \<and>
   (set (schemaNames rs) \<subseteq> set (map name (ref_schema (db (realm rs)))) \<and>
    set (schemaNames rs) \<inter> set locked = {} \<longrightarrow>
      fst (removeAll_storage (ref_engine locked) None rs) = Inr () \<and>
      rows (db (realm (snd (removeAll_storage (ref_engine locked) None rs)))) =
        filter (\<lambda>row. fst row \<notin> set (schemaNames rs)) (rows (db (realm rs))) \<and>
      trace (realm (snd (removeAll_storage (ref_engine locked) None rs))) =
        trace (realm rs) @
        concat (map (\<lambda>nm. [Objects nm, BeginTransaction, Delete (RResults nm),
                            CommitTransaction]) (schemaNames rs))) \<and>
   (schemaNames rs = pre @ nm # post \<and>
    set (pre @ [nm]) \<subseteq> set (map name (ref_schema (db (realm rs)))) \<and>
    set pre \<inter> set locked = {} \<and> nm \<in> set locked \<longrightarrow>
      (\<exists>err. fst (removeAll_storage (ref_engine locked) None rs) = Inl err) \<and>
      rows (db (realm (snd (removeAll_storage (ref_engine locked) None rs)))) =
        filter (\<lambda>row. fst row \<notin> set pre) (rows (db (realm rs))) \<and>
      trace (realm (snd (removeAll_storage (ref_engine locked) None rs))) =
        trace (realm rs) @
        concat (map (\<lambda>nm. [Objects nm, BeginTransaction, Delete (RResults nm),
                            CommitTransaction]) pre) @
        [Objects nm, BeginTransaction, Delete (RResults nm), CancelTransaction])"
proof (intro conjI impI)
  assume "schemaNames st = map fst steps \<and> deletions eng (db (realm st)) steps = Some d'"
  then show "removeAll_storage eng None st =
        (Inr (), st\<lparr>realm := (realm st)\<lparr>db := d',
           trace := trace (realm st) @ transactions steps\<rparr>\<rparr>)"
    by (intro removeAll_run) simp_all
next
  assume a: "schemaNames st = map fst steps @ nm # post \<and>
    deletions eng (db (realm st)) steps = Some d' \<and>
    eng_objects eng d' nm = Inr (Results h) \<and> eng_delete eng d' h = Inl e"
  then have r: "removeAll_storage eng None st =
        catch_block e (st\<lparr>realm := (realm st)\<lparr>db := d',
          trace := trace (realm st) @ transactions steps @
            [Objects nm, BeginTransaction, Delete h, CancelTransaction]\<rparr>\<rparr>)"
    by (intro removeAll_loop_delete_failure) simp_all
  then show "removeAll_storage eng None st =
        catch_block e (st\<lparr>realm := (realm st)\<lparr>db := d',
          trace := trace (realm st) @ transactions steps @
            [Objects nm, BeginTransaction, Delete h, CancelTransaction]\<rparr>\<rparr>)" .
  show "\<exists>err. fst (removeAll_storage eng None st) = Inl err"
    unfolding r by (rule catch_block_raises)
  show "realm (snd (removeAll_storage eng None st)) =
        (realm st)\<lparr>db := d',
          trace := trace (realm st) @ transactions steps @
            [Objects nm, BeginTransaction, Delete h, CancelTransaction]\<rparr>"
    unfolding r by (simp add: realm_catch_block)
next
  assume "schemaNames st = map fst steps @ nm # post \<and>
    deletions eng (db (realm st)) steps = Some d' \<and> eng_objects eng d' nm = Inl e"
  then show "removeAll_storage eng None st =
        catch_block e (st\<lparr>realm := (realm st)\<lparr>db := d',
          trace := trace (realm st) @ transactions steps @ [Objects nm]\<rparr>\<rparr>)"
    by (intro removeAll_loop_lookup_failure) simp_all
next
  assume a: "set (schemaNames rs) \<subseteq> set (map name (ref_schema (db (realm rs)))) \<and>
    set (schemaNames rs) \<inter> set locked = {}"
  let ?steps = "map (\<lambda>nm. (nm, Results (RResults nm))) (schemaNames rs)"
  from a have "deletions (ref_engine locked) (db (realm rs)) ?steps =
      Some ((db (realm rs))\<lparr>rows :=
        filter (\<lambda>row. fst row \<notin> set (schemaNames rs)) (rows (db (realm rs)))\<rparr>)"
    by (intro ref_deletions) simp_all
  moreover have "schemaNames rs = map fst ?steps" by (simp add: comp_def)
  ultimately have r: "removeAll_storage (ref_engine locked) None rs =
      (Inr (), rs\<lparr>realm := (realm rs)\<lparr>db := (db (realm rs))\<lparr>rows :=
          filter (\<lambda>row. fst row \<notin> set (schemaNames rs)) (rows (db (realm rs)))\<rparr>,
        trace := trace (realm rs) @ transactions ?steps\<rparr>\<rparr>)"
    by (rule removeAll_run [rotated])
  show "fst (removeAll_storage (ref_engine locked) None rs) = Inr ()"
    and "rows (db (realm (snd (removeAll_storage (ref_engine locked) None rs)))) =
        filter (\<lambda>row. fst row \<notin> set (schemaNames rs)) (rows (db (realm rs)))"
    and "trace (realm (snd (removeAll_storage (ref_engine locked) None rs))) =
        trace (realm rs) @
        concat (map (\<lambda>nm. [Objects nm, BeginTransaction, Delete (RResults nm),
                            CommitTransaction]) (schemaNames rs))"
    unfolding r by (simp_all add: ref_transactions)
next
  assume a: "schemaNames rs = pre @ nm # post \<and>
    set (pre @ [nm]) \<subseteq> set (map name (ref_schema (db (realm rs)))) \<and>
    set pre \<inter> set locked = {} \<and> nm \<in> set locked"
  let ?steps = "map (\<lambda>nm. (nm, Results (RResults nm))) pre"
  let ?d' = "(db (realm rs))\<lparr>rows := filter (\<lambda>row. fst row \<notin> set pre) (rows (db (realm rs)))\<rparr>"
  let ?e = "JsError ''Error'' (''Cannot delete from '' @ nm)"
  from a have d: "deletions (ref_engine locked) (db (realm rs)) ?steps = Some ?d'"
    by (intro ref_deletions) simp_all
  from a have n: "schemaNames rs = map fst ?steps @ nm # post" by (simp add: comp_def)
  from a have o: "eng_objects (ref_engine locked) ?d' nm = Inr (Results (RResults nm))"
    and f: "eng_delete (ref_engine locked) ?d' (RResults nm) = Inl ?e"
    by (auto simp: ref_engine_def ref_objects_def ref_delete_def)
  have r: "removeAll_storage (ref_engine locked) None rs =
      catch_block ?e (rs\<lparr>realm := (realm rs)\<lparr>db := ?d',
          trace := trace (realm rs) @ transactions ?steps @
            [Objects nm, BeginTransaction, Delete (RResults nm), CancelTransaction]\<rparr>\<rparr>)"
    by (rule removeAll_loop_delete_failure [OF disjI1 [OF refl] n d o f])
  show "\<exists>err. fst (removeAll_storage (ref_engine locked) None rs) = Inl err"
    unfolding r by (rule catch_block_raises)
  show "rows (db (realm (snd (removeAll_storage (ref_engine locked) None rs)))) =
        filter (\<lambda>row. fst row \<notin> set pre) (rows (db (realm rs)))"
    and "trace (realm (snd (removeAll_storage (ref_engine locked) None rs))) =
        trace (realm rs) @
        concat (map (\<lambda>nm. [Objects nm, BeginTransaction, Delete (RResults nm),
                            CommitTransaction]) pre) @
        [Objects nm, BeginTransaction, Delete (RResults nm), CancelTransaction]"
    unfolding r by (simp_all add: realm_catch_block ref_transactions)
qed


theorem removeAll_one_transaction_per_type_witness:
  "schemaNames example_populated = [''User''] @ ''Note'' # [] \<and>
   set ([''User''] @ [''Note'']) \<subseteq> set (map name (ref_schema (db (realm example_populated)))) \<and>
   set [''User''] \<inter> set [''Note''] = {} \<and> ''Note'' \<in> set [''Note''] \<and>
   rows (db (realm example_populated)) =
     [(''User'', [(''id'', JNum 1), (''name'', JStr ''Ann'')]),
      (''Note'', [(''text'', JStr ''hi'')])] \<and>
   (\<exists>err. fst (removeAll_storage (ref_engine [''Note'']) None example_populated) = Inl err) \<and>
   rows (db (realm (snd (removeAll_storage (ref_engine [''Note'']) None example_populated)))) =
     [(''Note'', [(''text'', JStr ''hi'')])] \<and>
   trace (realm (snd (removeAll_storage (ref_engine [''Note'']) None example_populated))) =
     [Objects ''User'', BeginTransaction, Delete (RResults ''User''), CommitTransaction,
      Objects ''Note'', BeginTransaction, Delete (RResults ''Note''), CancelTransaction] \<and>
   schemaNames example_populated =
     map fst [(''User'', Results (RResults ''User'')), (''Note'', Results (RResults ''Note''))] \<and>
   deletions (ref_engine []) (db (realm example_populated))
     [(''User'', Results (RResults ''User'')), (''Note'', Results (RResults ''Note''))] =
     Some \<lparr>ref_schema = example_schemas, rows = []\<rparr> \<and>
   removeAll_storage (ref_engine []) None example_populated =
     (Inr (),
      example_populated
        \<lparr>realm :=
           \<lparr>db = \<lparr>ref_schema = example_schemas, rows = []\<rparr>,
            trace =
              [Objects ''User'', BeginTransaction, Delete (RResults ''User''), CommitTransaction,
               Objects ''Note'', BeginTransaction, Delete (RResults ''Note''),
               CommitTransaction]\<rparr>\<rparr>)"
proof -
  have h: "schemaNames example_populated = [''User''] @ ''Note'' # [] \<and>
      set ([''User''] @ [''Note'']) \<subseteq> set (map name (ref_schema (db (realm example_populated)))) \<and>
      set [''User''] \<inter> set [''Note''] = {} \<and> ''Note'' \<in> set [''Note'']"
    by (simp add: example_defs)
  have r0: "rows (db (realm example_populated)) =
     [(''User'', [(''id'', JNum 1), (''name'', JStr ''Ann'')]),
      (''Note'', [(''text'', JStr ''hi'')])]"
    by (simp add: example_defs)
  have g: "schemaNames example_populated =
       map fst [(''User'', Results (RResults ''User'')), (''Note'', Results (RResults ''Note''))] \<and>
     deletions (ref_engine []) (db (realm example_populated))
       [(''User'', Results (RResults ''User'')), (''Note'', Results (RResults ''Note''))] =
       Some \<lparr>ref_schema = example_schemas, rows = []\<rparr>"
    by (simp add: example_defs)
  note T = removeAll_one_transaction_per_type [where rs = example_populated
    and locked = "[''Note'']" and pre = "[''User'']" and nm = "''Note''" and post = "[]"]
  note F = T [THEN conjunct2, THEN conjunct2, THEN conjunct2, THEN conjunct2, THEN mp, OF h]
  note S = removeAll_one_transaction_per_type [where st = example_populated
    and eng = "ref_engine []"
    and steps = "[(''User'', Results (RResults ''User'')), (''Note'', Results (RResults ''Note''))]"
    and d' = "\<lparr>ref_schema = example_schemas, rows = []\<rparr>", THEN conjunct1, THEN mp, OF g]
  from F r0 have 1:
    "rows (db (realm (snd (removeAll_storage (ref_engine [''Note'']) None example_populated)))) =
       [(''Note'', [(''text'', JStr ''hi'')])]"
    and 2: "trace (realm (snd (removeAll_storage (ref_engine [''Note'']) None example_populated))) =
     [Objects ''User'', BeginTransaction, Delete (RResults ''User''), CommitTransaction,
      Objects ''Note'', BeginTransaction, Delete (RResults ''Note''), CancelTransaction]"
    by (simp_all add: example_defs)
  from S have 3: "removeAll_storage (ref_engine []) None example_populated =
     (Inr (),
      example_populated
        \<lparr>realm :=
           \<lparr>db = \<lparr>ref_schema = example_schemas, rows = []\<rparr>,
            trace =
              [Objects ''User'', BeginTransaction, Delete (RResults ''User''), CommitTransaction,
               Objects ''Note'', BeginTransaction, Delete (RResults ''Note''),
               CommitTransaction]\<rparr>\<rparr>)"
    by (simp add: example_populated_def example_storage_def)
  from h r0 g F [THEN conjunct1] 1 2 3 show ?thesis by blast
qed


section \<open>Update mode\<close>

lemma find_filter: "find P xs = (case filter P xs of [] \<Rightarrow> None | x # _ \<Rightarrow> Some x)"
  by (induction xs) simp_all

lemma map_of_overwritten:
  "map_of (map (\<lambda>(f, x). (f, case map_of v f of Some y \<Rightarrow> y | None \<Rightarrow> x)) old) g =
     (case map_of old g of
        None \<Rightarrow> None
      | Some x \<Rightarrow> Some (case map_of v g of Some y \<Rightarrow> y | None \<Rightarrow> x))"
  by (induction old) (auto split: option.splits)

lemma map_of_added:
  "map_of (filter (\<lambda>(f, y). map_of old f = None) v) g =
     (if map_of old g = None then map_of v g else None)"
  by (induction v) auto

lemma map_of_merge_obj:
  "map_of (merge_obj old v) g =
     (case map_of v g of Some y \<Rightarrow> Some y | None \<Rightarrow> map_of old g)"
  by (simp add: merge_obj_def map_add_def map_of_overwritten map_of_added
      split: option.splits)

lemma has_key_merged:
  assumes "map_of v pk = Some k"
  shows "has_key t pk k (t, merge_obj old v)"
  using assms by (simp add: has_key_def map_of_merge_obj)

lemma filter_replaced:
  assumes "map_of v pk = Some k"
  shows "filter (has_key t pk k)
           (map (\<lambda>row. if has_key t pk k row then (t, merge_obj (snd row) v) else row) rs) =
         map (\<lambda>row. (t, merge_obj (snd row) v)) (filter (has_key t pk k) rs)"
  using has_key_merged [OF assms, of t] by (induction rs) auto

lemma ref_create_new:
  assumes "find (\<lambda>s. name s = t) (ref_schema d) = Some s" and "primaryKey s = Some pk"
    and "map_of v pk = Some k" and "filter (has_key t pk k) (rows d) = []"
  shows "ref_create d t v True = Inr (RObject t v, d\<lparr>rows := rows d @ [(t, v)]\<rparr>)"
  using assms by (simp add: ref_create_def find_filter)

lemma ref_create_existing:
  assumes "find (\<lambda>s. name s = t) (ref_schema d) = Some s" and "primaryKey s = Some pk"
    and "map_of v pk = Some k" and "filter (has_key t pk k) (rows d) = [(t', old)]"
  shows "ref_create d t v True =
     Inr (RObject t (merge_obj old v),
          d\<lparr>rows := map (\<lambda>row. if has_key t pk k row then (t, merge_obj (snd row) v) else row)
                       (rows d)\<rparr>)"
  using assms by (simp add: ref_create_def find_filter)

lemma ref_create_update:
  assumes "find (\<lambda>s. name s = t) (ref_schema d) = Some s" and "primaryKey s = Some pk"
    and "map_of v pk = Some k" and "length (filter (has_key t pk k) (rows d)) \<le> 1"
  shows "\<exists>obj d'. ref_create d t v True = Inr (RObject t obj, d') \<and>
           filter (has_key t pk k) (rows d') = [(t, obj)] \<and>
           ref_schema d' = ref_schema d \<and>
           (\<forall>g y. map_of v g = Some y \<longrightarrow> map_of obj g = Some y)"
proof (cases "filter (has_key t pk k) (rows d)")
  case Nil
  from ref_create_new [OF assms(1-3) Nil] Nil assms(3) show ?thesis
    by (simp add: has_key_def)
next
  case (Cons row rest)
  with assms(4) have rest: "rest = []" by simp
  obtain t' old where row: "row = (t', old)" by (cases row)
  from Cons rest row have f: "filter (has_key t pk k) (rows d) = [(t', old)]" by simp
  from ref_create_existing [OF assms(1-3) f] filter_replaced [OF assms(3), of t "rows d"] f
  show ?thesis by (simp add: map_of_merge_obj)
qed

lemma ref_updateItem:
  assumes "key \<in> set (schemaNames rs)"
    and "find (\<lambda>s. name s = key) (ref_schema (db (realm rs))) = Some s"
    and "primaryKey s = Some pk"
    and "map_of v pk = Some k"
    and "length (filter (has_key key pk k) (rows (db (realm rs)))) \<le> 1"
  shows "\<exists>obj. fst (updateItem (ref_engine locked) key v rs) = Inr (RObject key obj) \<and>
           filter (has_key key pk k)
             (rows (db (realm (snd (updateItem (ref_engine locked) key v rs))))) = [(key, obj)] \<and>
           ref_schema (db (realm (snd (updateItem (ref_engine locked) key v rs)))) =
             ref_schema (db (realm rs)) \<and>
           schemaNames (snd (updateItem (ref_engine locked) key v rs)) = schemaNames rs \<and>
           (\<forall>g y. map_of v g = Some y \<longrightarrow> map_of obj g = Some y)"
proof -
  from ref_create_update [OF assms(2-5)] obtain obj d' where
    c: "ref_create (db (realm rs)) key v True = Inr (RObject key obj, d')"
    and r: "filter (has_key key pk k) (rows d') = [(key, obj)]"
      "ref_schema d' = ref_schema (db (realm rs))"
      "\<forall>g y. map_of v g = Some y \<longrightarrow> map_of obj g = Some y"
    by blast
  from c have "eng_create (ref_engine locked) (db (realm rs)) key v True =
      Inr (RObject key obj, d')"
    by (simp add: ref_engine_def)
  from write_create_commits [OF this]
  have "updateItem (ref_engine locked) key v rs =
      (Inr (RObject key obj),
       rs\<lparr>realm := (realm rs)\<lparr>db := d', trace := trace (realm rs) @
         [BeginTransaction, Create key v True, CommitTransaction]\<rparr>\<rparr>)"
    unfolding updateItem_def accepted [OF assms(1)] by (simp add: try_catch_def)
  with r show ?thesis by simp
qed


lemma ref_updateItem_existing:
  assumes "key \<in> set (schemaNames rs)"
    and "find (\<lambda>s. name s = key) (ref_schema (db (realm rs))) = Some s"
    and "primaryKey s = Some pk"
    and "map_of v pk = Some k"
    and "filter (has_key key pk k) (rows (db (realm rs))) = [(key, old)]"
  shows "fst (updateItem (ref_engine locked) key v rs) = Inr (RObject key (merge_obj old v)) \<and>
         filter (has_key key pk k)
           (rows (db (realm (snd (updateItem (ref_engine locked) key v rs))))) =
           [(key, merge_obj old v)]"
proof -
  let ?d' = "(db (realm rs))\<lparr>rows :=
      map (\<lambda>row. if has_key key pk k row then (key, merge_obj (snd row) v) else row)
        (rows (db (realm rs)))\<rparr>"
  from ref_create_existing [OF assms(2-5)]
  have "eng_create (ref_engine locked) (db (realm rs)) key v True =
      Inr (RObject key (merge_obj old v), ?d')"
    by (simp add: ref_engine_def)
  from write_create_commits [OF this]
  have "updateItem (ref_engine locked) key v rs =
      (Inr (RObject key (merge_obj old v)),
       rs\<lparr>realm := (realm rs)\<lparr>db := ?d', trace := trace (realm rs) @
         [BeginTransaction, Create key v True, CommitTransaction]\<rparr>\<rparr>)"
    unfolding updateItem_def accepted [OF assms(1)] by (simp add: try_catch_def)
  with filter_replaced [OF assms(4), of key "rows (db (realm rs))"] assms(5)
  show ?thesis by simp
qed

text \<open>
  Claim C4. For a registered type name, \<open>updateItem\<close> validates the name and then has
  the engine create the record in update mode inside one transaction, and returns the
  record the engine gives back; a failure of the engine cancels the transaction and
  goes to the catch block, so the operation throws (the engine's error wrapped in a
  new \<open>Error\<close>, when the error callback returns normally or there is none). With
  the reference engine, a record with the same primary key has the fields present in
  the value overwritten and its other fields left as they were, and two updates with
  the same primary key \<open>k\<close>, the first with \<open>f = 1\<close> and the second with \<open>f = 2\<close>,
  leave exactly one record with the key \<open>k\<close>, in which \<open>f\<close> is \<open>2\<close>; that record is
  the one returned.
\<close>

theorem updateItem_creates_or_merges:
  "(key \<in> set (schemaNames st) \<and> eng_create eng (db (realm st)) key v True = Inr (item, d) \<longrightarrow>
      updateItem eng key v st =
        (Inr item,
         st\<lparr>realm := (realm st)\<lparr>db := d, trace := trace (realm st) @
           [BeginTransaction, Create key v True, CommitTransaction]\<rparr>\<rparr>)) \<and>
   (key \<in> set (schemaNames st) \<and> eng_create eng (db (realm st)) key v True = Inl e \<longrightarrow>
      updateItem eng key v st =
        catch_block e (st\<lparr>realm := (realm st)\<lparr>trace := trace (realm st) @
          [BeginTransaction, Create key v True, CancelTransaction]\<rparr>\<rparr>) \<and>
      ((errorCallback st = None \<or> (\<exists>cb. errorCallback st = Some cb \<and> cb_throws cb e = None)) \<longrightarrow>
         fst (updateItem eng key v st) = Inl (new_Error_of e)) \<and>
      (\<exists>err. fst (updateItem eng key v st) = Inl err) \<and>
      realm (snd (updateItem eng key v st)) =
        (realm st)\<lparr>trace := trace (realm st) @
           [BeginTransaction, Create key v True, CancelTransaction]\<rparr>) \<and>
   (key \<in> set (schemaNames rs) \<and>
    find (\<lambda>s. name s = key) (ref_schema (db (realm rs))) = Some s \<and>
    primaryKey s = Some pk \<and> map_of v pk = Some k \<and>
    filter (has_key key pk k) (rows (db (realm rs))) = [(key, old)] \<longrightarrow>
      fst (updateItem (ref_engine locked) key v rs) = Inr (RObject key (merge_obj old v)) \<and>
      filter (has_key key pk k)
        (rows (db (realm (snd (updateItem (ref_engine locked) key v rs))))) =
        [(key, merge_obj old v)] \<and>
      (\<forall>g. map_of (merge_obj old v) g =
         (case map_of v g of Some y \<Rightarrow> Some y | None \<Rightarrow> map_of old g))) \<and>
   (key \<in> set (schemaNames rs) \<and>
    find (\<lambda>s. name s = key) (ref_schema (db (realm rs))) = Some s \<and>
    primaryKey s = Some pk \<and> f \<noteq> pk \<and>
    length (filter (has_key key pk k) (rows (db (realm rs)))) \<le> 1 \<longrightarrow>
      (let rs1 = snd (updateItem (ref_engine locked) key [(pk, k), (f, JNum 1)] rs);
           r2 = updateItem (ref_engine locked) key [(pk, k), (f, JNum 2)] rs1
       in \<exists>obj. fst r2 = Inr (RObject key obj) \<and>
            filter (has_key key pk k) (rows (db (realm (snd r2)))) = [(key, obj)] \<and>
            map_of obj pk = Some k \<and> map_of obj f = Some (JNum 2)))"
proof (intro conjI impI)
  assume a: "key \<in> set (schemaNames st) \<and>
    eng_create eng (db (realm st)) key v True = Inr (item, d)"
  then have "eng_create eng (db (realm st)) key v True = Inr (item, d)" ..
  from write_create_commits [OF this] a
  show "updateItem eng key v st =
        (Inr item,
         st\<lparr>realm := (realm st)\<lparr>db := d, trace := trace (realm st) @
           [BeginTransaction, Create key v True, CommitTransaction]\<rparr>\<rparr>)"
    by (simp add: updateItem_def try_catch_def checkSchema_registered)
next
  assume a: "key \<in> set (schemaNames st) \<and> eng_create eng (db (realm st)) key v True = Inl e"
  let ?st1 = "st\<lparr>realm := (realm st)\<lparr>trace := trace (realm st) @
          [BeginTransaction, Create key v True, CancelTransaction]\<rparr>\<rparr>"
  from a have r: "updateItem eng key v st = catch_block e ?st1"
    by (intro updateItem_engine_failure) simp_all
  then show "updateItem eng key v st = catch_block e ?st1" .
  show "\<exists>err. fst (updateItem eng key v st) = Inl err"
    unfolding r by (rule catch_block_raises)
  show "realm (snd (updateItem eng key v st)) =
        (realm st)\<lparr>trace := trace (realm st) @
           [BeginTransaction, Create key v True, CancelTransaction]\<rparr>"
    unfolding r by (simp add: realm_catch_block)
  assume "errorCallback st = None \<or> (\<exists>cb. errorCallback st = Some cb \<and> cb_throws cb e = None)"
  then have "errorCallback ?st1 = None \<or>
      (\<exists>cb. errorCallback ?st1 = Some cb \<and> cb_throws cb e = None)"
    by simp
  from callback_returns [OF this] show "fst (updateItem eng key v st) = Inl (new_Error_of e)"
    unfolding r by (simp add: catch_block_error)
next
  assume a: "key \<in> set (schemaNames rs) \<and>
    find (\<lambda>s. name s = key) (ref_schema (db (realm rs))) = Some s \<and>
    primaryKey s = Some pk \<and> map_of v pk = Some k \<and>
    filter (has_key key pk k) (rows (db (realm rs))) = [(key, old)]"
  then have "fst (updateItem (ref_engine locked) key v rs) = Inr (RObject key (merge_obj old v)) \<and>
         filter (has_key key pk k)
           (rows (db (realm (snd (updateItem (ref_engine locked) key v rs))))) =
           [(key, merge_obj old v)]"
    by (intro ref_updateItem_existing [of key rs s pk v k old locked]) simp_all
  then show "fst (updateItem (ref_engine locked) key v rs) = Inr (RObject key (merge_obj old v))"
    and "filter (has_key key pk k)
        (rows (db (realm (snd (updateItem (ref_engine locked) key v rs))))) =
        [(key, merge_obj old v)]"
    by simp_all
  show "\<forall>g. map_of (merge_obj old v) g =
         (case map_of v g of Some y \<Rightarrow> Some y | None \<Rightarrow> map_of old g)"
    by (simp add: map_of_merge_obj)
next
  assume a: "key \<in> set (schemaNames rs) \<and>
    find (\<lambda>s. name s = key) (ref_schema (db (realm rs))) = Some s \<and>
    primaryKey s = Some pk \<and> f \<noteq> pk \<and>
    length (filter (has_key key pk k) (rows (db (realm rs)))) \<le> 1"
  define rs1 where "rs1 = snd (updateItem (ref_engine locked) key [(pk, k), (f, JNum 1)] rs)"
  have v1: "map_of [(pk, k), (f, JNum 1)] pk = Some k"
    and v2: "map_of [(pk, k), (f, JNum 2)] pk = Some k" by simp_all
  from a ref_updateItem [of key rs s pk "[(pk, k), (f, JNum 1)]" k locked, OF _ _ _ v1]
  have 1: "key \<in> set (schemaNames rs1)"
    "find (\<lambda>s. name s = key) (ref_schema (db (realm rs1))) = Some s"
    "length (filter (has_key key pk k) (rows (db (realm rs1)))) \<le> 1"
    unfolding rs1_def by auto
  from a have pk: "primaryKey s = Some pk" by simp
  from ref_updateItem [OF 1(1,2) pk v2 1(3), of locked] a
  have "\<exists>obj. fst (updateItem (ref_engine locked) key [(pk, k), (f, JNum 2)] rs1) =
            Inr (RObject key obj) \<and>
          filter (has_key key pk k)
            (rows (db (realm (snd (updateItem (ref_engine locked) key [(pk, k), (f, JNum 2)] rs1))))) =
            [(key, obj)] \<and>
          map_of obj pk = Some k \<and> map_of obj f = Some (JNum 2)"
    by auto
  then show "let rs1 = snd (updateItem (ref_engine locked) key [(pk, k), (f, JNum 1)] rs);
           r2 = updateItem (ref_engine locked) key [(pk, k), (f, JNum 2)] rs1
       in \<exists>obj. fst r2 = Inr (RObject key obj) \<and>
            filter (has_key key pk k) (rows (db (realm (snd r2)))) = [(key, obj)] \<and>
            map_of obj pk = Some k \<and> map_of obj f = Some (JNum 2)"
    unfolding Let_def rs1_def .
qed

theorem updateItem_creates_or_merges_witness:
  "''User'' \<in> set (schemaNames example_populated) \<and>
   find (\<lambda>s. name s = ''User'') (ref_schema (db (realm example_populated))) =
     Some \<lparr>name = ''User'', primaryKey = Some ''id'', properties = []\<rparr> \<and>
   ''age'' \<noteq> ''id'' \<and>
   length (filter (has_key ''User'' ''id'' (JNum 1)) (rows (db (realm example_populated)))) \<le> 1 \<and>
   (\<exists>obj.
      fst (updateItem (ref_engine []) ''User'' [(''id'', JNum 1), (''age'', JNum 2)]
        (snd (updateItem (ref_engine []) ''User'' [(''id'', JNum 1), (''age'', JNum 1)]
           example_populated))) = Inr (RObject ''User'' obj) \<and>
      filter (has_key ''User'' ''id'' (JNum 1))
        (rows (db (realm (snd (updateItem (ref_engine []) ''User''
           [(''id'', JNum 1), (''age'', JNum 2)]
           (snd (updateItem (ref_engine []) ''User'' [(''id'', JNum 1), (''age'', JNum 1)]
              example_populated))))))) = [(''User'', obj)] \<and>
      map_of obj ''id'' = Some (JNum 1) \<and> map_of obj ''age'' = Some (JNum 2)) \<and>
   rows (db (realm (snd (updateItem (ref_engine []) ''User''
     [(''id'', JNum 1), (''age'', JNum 2)]
     (snd (updateItem (ref_engine []) ''User'' [(''id'', JNum 1), (''age'', JNum 1)]
        example_populated)))))) =
     [(''User'', [(''id'', JNum 1), (''name'', JStr ''Ann''), (''age'', JNum 2)]),
      (''Note'', [(''text'', JStr ''hi'')])]"
proof -
  have h: "''User'' \<in> set (schemaNames example_populated)"
    "find (\<lambda>s. name s = ''User'') (ref_schema (db (realm example_populated))) =
       Some \<lparr>name = ''User'', primaryKey = Some ''id'', properties = []\<rparr>"
    "primaryKey \<lparr>name = ''User'', primaryKey = Some ''id'', properties = []\<rparr> = Some ''id''"
    "''age'' \<noteq> ''id''"
    "length (filter (has_key ''User'' ''id'' (JNum 1)) (rows (db (realm example_populated)))) \<le> 1"
    by (simp_all add: example_defs has_key_def)
  from h have hyp: "''User'' \<in> set (schemaNames example_populated) \<and>
    find (\<lambda>s. name s = ''User'') (ref_schema (db (realm example_populated))) =
      Some \<lparr>name = ''User'', primaryKey = Some ''id'', properties = []\<rparr> \<and>
    primaryKey \<lparr>name = ''User'', primaryKey = Some ''id'', properties = []\<rparr> = Some ''id'' \<and>
    ''age'' \<noteq> ''id'' \<and>
    length (filter (has_key ''User'' ''id'' (JNum 1)) (rows (db (realm example_populated)))) \<le> 1"
    by (intro conjI)
  from mp [OF updateItem_creates_or_merges [where rs = example_populated and key = "''User''"
      and s = "\<lparr>name = ''User'', primaryKey = Some ''id'', properties = []\<rparr>"
      and pk = "''id''" and f = "''age''" and k = "JNum 1" and locked = "[]",
      THEN conjunct2, THEN conjunct2, THEN conjunct2] hyp]
  have e: "\<exists>obj.
      fst (updateItem (ref_engine []) ''User'' [(''id'', JNum 1), (''age'', JNum 2)]
        (snd (updateItem (ref_engine []) ''User'' [(''id'', JNum 1), (''age'', JNum 1)]
           example_populated))) = Inr (RObject ''User'' obj) \<and>
      filter (has_key ''User'' ''id'' (JNum 1))
        (rows (db (realm (snd (updateItem (ref_engine []) ''User''
           [(''id'', JNum 1), (''age'', JNum 2)]
           (snd (updateItem (ref_engine []) ''User'' [(''id'', JNum 1), (''age'', JNum 1)]
              example_populated))))))) = [(''User'', obj)] \<and>
      map_of obj ''id'' = Some (JNum 1) \<and> map_of obj ''age'' = Some (JNum 2)"
    unfolding Let_def .
  have s1: "updateItem (ref_engine []) ''User'' [(''id'', JNum 1), (''age'', JNum 1)]
      example_populated =
   (Inr (RObject ''User'' [(''id'', JNum 1), (''name'', JStr ''Ann''), (''age'', JNum 1)]),
    example_populated
      \<lparr>realm :=
         \<lparr>db = \<lparr>ref_schema = example_schemas,
                 rows = [(''User'', [(''id'', JNum 1), (''name'', JStr ''Ann''), (''age'', JNum 1)]),
                         (''Note'', [(''text'', JStr ''hi'')])]\<rparr>,
          trace = [BeginTransaction,
                   Create ''User'' [(''id'', JNum 1), (''age'', JNum 1)] True,
                   CommitTransaction]\<rparr>\<rparr>)"
    by (simp add: updateItem_def call_defs example_defs has_key_def merge_obj_def)
  have s2: "updateItem (ref_engine []) ''User'' [(''id'', JNum 1), (''age'', JNum 2)]
     (example_populated
      \<lparr>realm :=
         \<lparr>db = \<lparr>ref_schema = example_schemas,
                 rows = [(''User'', [(''id'', JNum 1), (''name'', JStr ''Ann''), (''age'', JNum 1)]),
                         (''Note'', [(''text'', JStr ''hi'')])]\<rparr>,
          trace = [BeginTransaction,
                   Create ''User'' [(''id'', JNum 1), (''age'', JNum 1)] True,
                   CommitTransaction]\<rparr>\<rparr>) =
   (Inr (RObject ''User'' [(''id'', JNum 1), (''name'', JStr ''Ann''), (''age'', JNum 2)]),
    example_populated
      \<lparr>realm :=
         \<lparr>db = \<lparr>ref_schema = example_schemas,
                 rows = [(''User'', [(''id'', JNum 1), (''name'', JStr ''Ann''), (''age'', JNum 2)]),
                         (''Note'', [(''text'', JStr ''hi'')])]\<rparr>,
          trace = [BeginTransaction,
                   Create ''User'' [(''id'', JNum 1), (''age'', JNum 1)] True,
                   CommitTransaction,
                   BeginTransaction,
                   Create ''User'' [(''id'', JNum 1), (''age'', JNum 2)] True,
                   CommitTransaction]\<rparr>\<rparr>)"
    by (simp add: updateItem_def call_defs example_defs has_key_def merge_obj_def)
  have r: "rows (db (realm (snd (updateItem (ref_engine []) ''User''
     [(''id'', JNum 1), (''age'', JNum 2)]
     (snd (updateItem (ref_engine []) ''User'' [(''id'', JNum 1), (''age'', JNum 1)]
        example_populated)))))) =
     [(''User'', [(''id'', JNum 1), (''name'', JStr ''Ann''), (''age'', JNum 2)]),
      (''Note'', [(''text'', JStr ''hi'')])]"
    by (simp add: s1 s2)
  from h e r show ?thesis by blast
qed

end
